theory Spec2Isabelle
  imports Complex_Main
begin

section \<open>Python values, exceptions and dictionaries\<close>

text \<open>
  The configuration windows of \<^verbatim>\<open>config.py\<close> move Python values between widgets, a
  dictionary of pending changes and the object being edited. The values that occur are
  \<^verbatim>\<open>None\<close>, booleans, integers, floats (what a spin button reports), strings, lists and
  tuples. A character of a string stands for one code point below 256.
\<close>

datatype pyval =
    PNone
  | PBool bool
  | PInt int
  | PFloat real
  | PStr string
  | PList "pyval list"
  | PTuple "pyval list"

datatype error = TypeError | NameError | AttributeError | KeyError | ValueError | IndexError

text \<open>
  A callback either returns or raises. Assignments made before the \<^verbatim>\<open>raise\<close> are not
  undone, so both outcomes carry the state the callback leaves behind.
\<close>

datatype 'w outcome = Returned 'w | Raised error 'w

fun state_of :: "'w outcome \<Rightarrow> 'w" where
  "state_of (Returned w) = w"
| "state_of (Raised e w) = w"

text \<open>
  A Python \<^verbatim>\<open>dict\<close> with string keys, in insertion order. \<^verbatim>\<open>d[k] = v\<close> replaces the
  value of a key that is present and appends a key that is not.
\<close>

type_synonym dict = "(string \<times> pyval) list"

definition dict_in :: "string \<Rightarrow> dict \<Rightarrow> bool" where
  "dict_in k d = (map_of d k \<noteq> None)"

definition dict_getitem :: "dict \<Rightarrow> string \<Rightarrow> error + pyval" where
  "dict_getitem d k = (case map_of d k of None \<Rightarrow> Inl KeyError | Some v \<Rightarrow> Inr v)"

fun dict_setitem :: "dict \<Rightarrow> string \<Rightarrow> pyval \<Rightarrow> dict" where
  "dict_setitem [] k v = [(k, v)]"
| "dict_setitem ((k', v') # d) k v =
     (if k' = k then (k, v) # d else (k', v') # dict_setitem d k v)"

definition dict_keys :: "dict \<Rightarrow> string list" where
  "dict_keys d = map fst d"

text \<open>
  An object is the dictionary of its attributes. \<^verbatim>\<open>getattr(obj, name)\<close> raises
  AttributeError for a missing attribute. \<^verbatim>\<open>setattr\<close> takes exactly three arguments, the
  object, the attribute name and the value; the model receives the arguments after the
  object as a list, so that a call with too few of them is a TypeError as in Python.
\<close>

type_synonym obj = dict

definition getattr :: "obj \<Rightarrow> string \<Rightarrow> error + pyval" where
  "getattr ob name = (case map_of ob name of None \<Rightarrow> Inl AttributeError | Some v \<Rightarrow> Inr v)"

fun setattr :: "obj \<Rightarrow> pyval list \<Rightarrow> error + obj" where
  "setattr ob [PStr name, v] = Inr (dict_setitem ob name v)"
| "setattr ob args = Inl TypeError"

text \<open>\<^verbatim>\<open>int(x)\<close> of a float truncates towards zero.\<close>

definition py_int :: "real \<Rightarrow> int" where
  "py_int x = (if 0 \<le> x then \<lfloor>x\<rfloor> else \<lceil>x\<rceil>)"

text \<open>
  \<^verbatim>\<open>text.split()\<close> cuts a string at runs of whitespace and drops empty pieces. Below
  code point 256 the whitespace characters are 9 to 13, 28 to 32, 133 and 160.
\<close>

definition py_isspace :: "char \<Rightarrow> bool" where
  "py_isspace c = (let n = of_char c :: nat in
     (9 \<le> n \<and> n \<le> 13) \<or> (28 \<le> n \<and> n \<le> 32) \<or> n = 133 \<or> n = 160)"

fun split_from :: "string \<Rightarrow> string \<Rightarrow> string list" where
  "split_from cur [] = (if cur = [] then [] else [cur])"
| "split_from cur (c # cs) =
     (if py_isspace c then (if cur = [] then split_from [] cs else cur # split_from [] cs)
      else split_from (cur @ [c]) cs)"

definition py_split :: "string \<Rightarrow> pyval" where
  "py_split text = PList (map PStr (split_from [] text))"

section \<open>GenericConfigWin\<close>

text \<open>
  Every configuration window holds the application object \<^verbatim>\<open>app_obj\<close> and its Gtk
  widgets. Of the widgets the model keeps the labels of the notebook's pages and whether
  the window has been destroyed. Child classes are extensions of this record.
\<close>

record 'a ConfigWin =
  app_obj :: 'a
  notebook :: "string list"
  destroyed :: bool

text \<open>
  The application object (\<^verbatim>\<open>mainapp.TartubeApp\<close>) and the main window it owns are not part
  of this file, so what they provide is a parameter: \<open>attribute\<close> reads
  \<^verbatim>\<open>self.app_obj.<name>\<close>, \<open>invoke\<close> gives the application object after the call
  \<^verbatim>\<open>self.app_obj.<name>(args)\<close>, and \<open>returns\<close> the value that call returns. Objects the
  application object owns are reached through it, under the names
  \<^verbatim>\<open>main_win_obj.<name>\<close> and \<^verbatim>\<open>dialogue_manager_obj.<name>\<close>. Where the code passes the
  window itself as an argument, the model leaves that argument out: a window is not a
  Python value of the model.
\<close>

record 'a application =
  attribute :: "'a \<Rightarrow> string \<Rightarrow> pyval"
  invoke :: "string \<Rightarrow> pyval list \<Rightarrow> 'a \<Rightarrow> 'a"
  returns :: "string \<Rightarrow> pyval list \<Rightarrow> 'a \<Rightarrow> pyval"

definition call ::
  "'a application \<Rightarrow> string \<Rightarrow> pyval list \<Rightarrow> ('a, 'z) ConfigWin_scheme
     \<Rightarrow> ('a, 'z) ConfigWin_scheme" where
  "call app name args self = self\<lparr>app_obj := invoke app name args (app_obj self)\<rparr>"

text \<open>
  \<^verbatim>\<open>GenericConfigWin.close\<close> (line 180) tells the main window that the window is closing.
  \<^verbatim>\<open>setup\<close> connects it to the signal \<^verbatim>\<open>destroy\<close> (line 100), so \<^verbatim>\<open>self.destroy()\<close> runs it
  and then the window is gone.
\<close>

definition close :: "'a application \<Rightarrow> ('a, 'z) ConfigWin_scheme \<Rightarrow> ('a, 'z) ConfigWin_scheme" where
  "close app self = call app ''main_win_obj.del_child_window'' [] self"

definition destroy :: "'a application \<Rightarrow> ('a, 'z) ConfigWin_scheme \<Rightarrow> ('a, 'z) ConfigWin_scheme" where
  "destroy app self = (close app self)\<lparr>destroyed := True\<rparr>"

text \<open>
  \<^verbatim>\<open>GenericConfigWin.add_notebook_tab\<close> (line 128) appends a page. \<^verbatim>\<open>setup_tabs\<close> is
  provided by each child class and adds the child's tabs, whose labels the model takes as a
  parameter. The add-widget functions read the value to show and connect the change
  callback only afterwards, so that drawing the tabs changes neither the pending changes
  nor the edited object. \<^verbatim>\<open>show_all\<close> only renders.
\<close>

definition add_notebook_tab :: "string \<Rightarrow> ('a, 'z) ConfigWin_scheme \<Rightarrow> ('a, 'z) ConfigWin_scheme" where
  "add_notebook_tab name self = self\<lparr>notebook := notebook self @ [name]\<rparr>"

definition setup_tabs :: "string list \<Rightarrow> ('a, 'z) ConfigWin_scheme \<Rightarrow> ('a, 'z) ConfigWin_scheme" where
  "setup_tabs tabs self = fold add_notebook_tab tabs self"

definition remove_page :: "nat \<Rightarrow> string list \<Rightarrow> string list" where
  "remove_page i pages = take i pages @ drop (Suc i) pages"

fun remove_all_pages :: "nat \<Rightarrow> string list \<Rightarrow> string list" where
  "remove_all_pages 0 pages = pages"
| "remove_all_pages (Suc count) pages = remove_all_pages count (remove_page 0 pages)"

section \<open>GenericEditWin\<close>

text \<open>
  An edit window also holds the object being edited \<^verbatim>\<open>edit_obj\<close> and the pending changes
  \<^verbatim>\<open>edit_dict\<close>.
\<close>

record ('o, 'a) EditWin = "'a ConfigWin" +
  edit_obj :: 'o
  edit_dict :: dict

text \<open>\<^verbatim>\<open>GenericEditWin.retrieve_val\<close> (line 348).\<close>

definition retrieve_val :: "(obj, 'a, 'z) EditWin_scheme \<Rightarrow> string \<Rightarrow> error + pyval" where
  "retrieve_val self name =
     (if dict_in name (edit_dict self) then dict_getitem (edit_dict self) name
      else getattr (edit_obj self) name)"

text \<open>\<^verbatim>\<open>GenericEditWin.on_checkbutton_toggled\<close> (line 978); the widget is what
  \<^verbatim>\<open>checkbutton.get_active()\<close> reports.\<close>

definition on_checkbutton_toggled ::
  "('o, 'a, 'z) EditWin_scheme \<Rightarrow> bool \<Rightarrow> string \<Rightarrow> ('o, 'a, 'z) EditWin_scheme outcome" where
  "on_checkbutton_toggled self get_active prop =
     (if \<not> get_active
      then Returned (self\<lparr>edit_dict := dict_setitem (edit_dict self) prop (PBool False)\<rparr>)
      else Returned (self\<lparr>edit_dict := dict_setitem (edit_dict self) prop (PBool True)\<rparr>))"

text \<open>
  \<^verbatim>\<open>GenericEditWin.apply_changes\<close> (line 290). The loop calls \<^verbatim>\<open>setattr\<close> with the
  object and the stored value only: the attribute name \<^verbatim>\<open>key\<close> is not passed.
\<close>

fun apply_changes_loop ::
  "(obj, 'a, 'z) EditWin_scheme \<Rightarrow> string list \<Rightarrow> (obj, 'a, 'z) EditWin_scheme outcome" where
  "apply_changes_loop self [] = Returned self"
| "apply_changes_loop self (key # keys) =
     (case dict_getitem (edit_dict self) key of
        Inl e \<Rightarrow> Raised e self
      | Inr v \<Rightarrow>
          (case setattr (edit_obj self) [v] of
             Inl e \<Rightarrow> Raised e self
           | Inr ob \<Rightarrow> apply_changes_loop (self\<lparr>edit_obj := ob\<rparr>) keys))"

definition apply_changes ::
  "(obj, 'a, 'z) EditWin_scheme \<Rightarrow> (obj, 'a, 'z) EditWin_scheme outcome" where
  "apply_changes self =
     (case apply_changes_loop self (dict_keys (edit_dict self)) of
        Raised e w \<Rightarrow> Raised e w
      | Returned w \<Rightarrow> Returned (w\<lparr>edit_dict := []\<rparr>))"

text \<open>\<^verbatim>\<open>GenericEditWin.reset_with_new_edit_obj\<close> (line 307).\<close>

definition reset_with_new_edit_obj ::
  "string list \<Rightarrow> ('o, 'a, 'z) EditWin_scheme \<Rightarrow> 'o \<Rightarrow> ('o, 'a, 'z) EditWin_scheme" where
  "reset_with_new_edit_obj tabs self new_edit_obj =
     (let self1 = self\<lparr>edit_obj := new_edit_obj\<rparr>;
          number = length (notebook self1);
          self2 = self1\<lparr>notebook := remove_all_pages number (notebook self1)\<rparr>;
          self3 = self2\<lparr>edit_dict := []\<rparr>
      in setup_tabs tabs self3)"

text \<open>
  The buttons of the strip (lines 912 to 975). The class body defines
  \<^verbatim>\<open>on_button_apply_clicked\<close> twice, at line 882 for the 'Apply' button of the strip and at
  line 1352 for the 'Apply download options' button; the name is bound to the later
  definition, which does not call \<^verbatim>\<open>apply_changes\<close>. Neither is used below.
\<close>

definition on_button_cancel_clicked ::
  "'a application \<Rightarrow> ('o, 'a, 'z) EditWin_scheme \<Rightarrow> ('o, 'a, 'z) EditWin_scheme" where
  "on_button_cancel_clicked app self = destroy app self"

definition on_button_ok_clicked ::
  "'a application \<Rightarrow> (obj, 'a, 'z) EditWin_scheme \<Rightarrow> (obj, 'a, 'z) EditWin_scheme outcome" where
  "on_button_ok_clicked app self =
     (case apply_changes self of
        Raised e w \<Rightarrow> Raised e w
      | Returned w \<Rightarrow> Returned (destroy app w))"

definition on_button_reset_clicked ::
  "string list \<Rightarrow> ('o, 'a, 'z) EditWin_scheme \<Rightarrow> ('o, 'a, 'z) EditWin_scheme" where
  "on_button_reset_clicked tabs self =
     (let number = length (notebook self);
          self1 = self\<lparr>notebook := remove_all_pages number (notebook self)\<rparr>;
          self2 = self1\<lparr>edit_dict := []\<rparr>
      in setup_tabs tabs self2)"

text \<open>
  The remaining change callbacks (lines 999 to 1121). A combo box is the row its active
  iter points to (\<^verbatim>\<open>None\<close> when no row is active) and its model, a list of rows;
  \<^verbatim>\<open>model[tree_iter][col]\<close> raises for \<^verbatim>\<open>None\<close>.
\<close>

definition model_item :: "pyval list list \<Rightarrow> nat option \<Rightarrow> nat \<Rightarrow> error + pyval" where
  "model_item model tree_iter col =
     (case tree_iter of
        None \<Rightarrow> Inl TypeError
      | Some i \<Rightarrow>
          if i < length model \<and> col < length (model ! i) then Inr (model ! i ! col)
          else Inl IndexError)"

definition on_combo_changed ::
  "('o, 'a, 'z) EditWin_scheme \<Rightarrow> nat option \<Rightarrow> pyval list list \<Rightarrow> string
     \<Rightarrow> ('o, 'a, 'z) EditWin_scheme outcome" where
  "on_combo_changed self tree_iter model prop =
     (case model_item model tree_iter 0 of
        Inl e \<Rightarrow> Raised e self
      | Inr v \<Rightarrow> Returned (self\<lparr>edit_dict := dict_setitem (edit_dict self) prop v\<rparr>))"

definition on_combo_with_data_changed ::
  "('o, 'a, 'z) EditWin_scheme \<Rightarrow> nat option \<Rightarrow> pyval list list \<Rightarrow> string
     \<Rightarrow> ('o, 'a, 'z) EditWin_scheme outcome" where
  "on_combo_with_data_changed self tree_iter model prop =
     (case model_item model tree_iter 1 of
        Inl e \<Rightarrow> Raised e self
      | Inr v \<Rightarrow> Returned (self\<lparr>edit_dict := dict_setitem (edit_dict self) prop v\<rparr>))"

definition on_entry_changed ::
  "('o, 'a, 'z) EditWin_scheme \<Rightarrow> string \<Rightarrow> string \<Rightarrow> ('o, 'a, 'z) EditWin_scheme outcome" where
  "on_entry_changed self get_text prop =
     Returned (self\<lparr>edit_dict := dict_setitem (edit_dict self) prop (PStr get_text)\<rparr>)"

text \<open>
  \<^verbatim>\<open>GenericEditWin.on_radiobutton_toggled\<close> (line 1055). Its parameters are \<^verbatim>\<open>self\<close>,
  \<^verbatim>\<open>checkbutton\<close>, \<^verbatim>\<open>prop\<close> and \<^verbatim>\<open>value\<close>; its body reads the name \<^verbatim>\<open>radiobutton\<close>. A
  name is looked up among the local variables, then among the names of the module (its
  imports \<^verbatim>\<open>gi\<close>, \<^verbatim>\<open>Gtk\<close>, \<^verbatim>\<open>GObject\<close>, \<^verbatim>\<open>GdkPixbuf\<close>, \<^verbatim>\<open>os\<close>, \<^verbatim>\<open>__main__\<close>, \<^verbatim>\<open>formats\<close>,
  \<^verbatim>\<open>mainapp\<close>, \<^verbatim>\<open>mainwin\<close>, \<^verbatim>\<open>media\<close>, \<^verbatim>\<open>utils\<close> and its classes) and the builtins, none
  of which is a widget; a name found nowhere is a NameError. A widget is what its
  \<^verbatim>\<open>get_active()\<close> reports.
\<close>

definition module_names :: "string list" where
  "module_names = [''gi'', ''Gtk'', ''GObject'', ''GdkPixbuf'', ''os'', ''__main__'',
     ''formats'', ''mainapp'', ''mainwin'', ''media'', ''utils'', ''GenericConfigWin'',
     ''GenericEditWin'', ''GenericPrefWin'', ''OptionsEditWin'', ''VideoEditWin'',
     ''ChannelPlaylistEditWin'', ''FolderEditWin'', ''SystemPrefWin'']"

definition lookup_widget :: "(string \<times> bool) list \<Rightarrow> string \<Rightarrow> error + bool" where
  "lookup_widget locals name =
     (case map_of locals name of
        Some widget \<Rightarrow> Inr widget
      | None \<Rightarrow> if name \<in> set module_names then Inl AttributeError else Inl NameError)"

definition on_radiobutton_toggled ::
  "('o, 'a, 'z) EditWin_scheme \<Rightarrow> bool \<Rightarrow> string \<Rightarrow> pyval
     \<Rightarrow> ('o, 'a, 'z) EditWin_scheme outcome" where
  "on_radiobutton_toggled self checkbutton prop val =
     (case lookup_widget [(''checkbutton'', checkbutton)] ''radiobutton'' of
        Inl e \<Rightarrow> Raised e self
      | Inr get_active \<Rightarrow>
          if get_active
          then Returned (self\<lparr>edit_dict := dict_setitem (edit_dict self) prop val\<rparr>)
          else Returned self)"

definition on_spinbutton_changed ::
  "('o, 'a, 'z) EditWin_scheme \<Rightarrow> real \<Rightarrow> string \<Rightarrow> ('o, 'a, 'z) EditWin_scheme outcome" where
  "on_spinbutton_changed self get_value prop =
     Returned (self\<lparr>edit_dict := dict_setitem (edit_dict self) prop (PInt (py_int get_value))\<rparr>)"

text \<open>
  \<^verbatim>\<open>GenericEditWin.on_textview_changed\<close> (line 1093) calls \<^verbatim>\<open>self.retrieve_val\<close>, which
  \<^verbatim>\<open>OptionsEditWin\<close> overrides: the method of the window's class is the parameter \<open>rv\<close>,
  which yields the value or the exception and the window after the call.
\<close>

definition on_textview_changed ::
  "(('o, 'a, 'z) EditWin_scheme \<Rightarrow> string \<Rightarrow> (error + pyval) \<times> ('o, 'a, 'z) EditWin_scheme)
     \<Rightarrow> ('o, 'a, 'z) EditWin_scheme \<Rightarrow> string \<Rightarrow> string
     \<Rightarrow> ('o, 'a, 'z) EditWin_scheme outcome" where
  "on_textview_changed rv self text prop =
     (case rv self prop of
        (Inl e, self1) \<Rightarrow> Raised e self1
      | (Inr old_value, self1) \<Rightarrow>
          (case old_value of
             PList xs \<Rightarrow>
               Returned (self1\<lparr>edit_dict := dict_setitem (edit_dict self1) prop (py_split text)\<rparr>)
           | PTuple xs \<Rightarrow>
               Returned (self1\<lparr>edit_dict := dict_setitem (edit_dict self1) prop (py_split text)\<rparr>)
           | _ \<Rightarrow>
               Returned (self1\<lparr>edit_dict := dict_setitem (edit_dict self1) prop (PStr text)\<rparr>)))"

text \<open>The generic \<^verbatim>\<open>retrieve_val\<close> as the method a callback calls on the window.\<close>

definition generic_rv ::
  "(obj, 'a, 'z) EditWin_scheme \<Rightarrow> string \<Rightarrow> (error + pyval) \<times> (obj, 'a, 'z) EditWin_scheme" where
  "generic_rv self name = (retrieve_val self name, self)"

text \<open>
  A change of a widget, with what the widget reports, and the callback connected to it.
  Gtk prints the traceback of a callback that raises and goes on with the next event.
\<close>

datatype event =
    CheckbuttonToggled bool string
  | ComboChanged "nat option" "pyval list list" string
  | ComboWithDataChanged "nat option" "pyval list list" string
  | EntryChanged string string
  | RadiobuttonToggled bool string pyval
  | SpinbuttonChanged real string
  | TextviewChanged string string

fun callback ::
  "(('o, 'a, 'z) EditWin_scheme \<Rightarrow> string \<Rightarrow> (error + pyval) \<times> ('o, 'a, 'z) EditWin_scheme)
     \<Rightarrow> ('o, 'a, 'z) EditWin_scheme \<Rightarrow> event \<Rightarrow> ('o, 'a, 'z) EditWin_scheme outcome" where
  "callback rv self (CheckbuttonToggled active prop) = on_checkbutton_toggled self active prop"
| "callback rv self (ComboChanged tree_iter model prop) = on_combo_changed self tree_iter model prop"
| "callback rv self (ComboWithDataChanged tree_iter model prop) =
     on_combo_with_data_changed self tree_iter model prop"
| "callback rv self (EntryChanged text prop) = on_entry_changed self text prop"
| "callback rv self (RadiobuttonToggled active prop val) = on_radiobutton_toggled self active prop val"
| "callback rv self (SpinbuttonChanged x prop) = on_spinbutton_changed self x prop"
| "callback rv self (TextviewChanged text prop) = on_textview_changed rv self text prop"

fun callbacks ::
  "(('o, 'a, 'z) EditWin_scheme \<Rightarrow> string \<Rightarrow> (error + pyval) \<times> ('o, 'a, 'z) EditWin_scheme)
     \<Rightarrow> ('o, 'a, 'z) EditWin_scheme \<Rightarrow> event list \<Rightarrow> ('o, 'a, 'z) EditWin_scheme" where
  "callbacks rv self [] = self"
| "callbacks rv self (ev # evs) = callbacks rv (state_of (callback rv self ev)) evs"

section \<open>OptionsEditWin\<close>

text \<open>
  The object edited by the download-options window is an \<^verbatim>\<open>options.OptionsManager\<close>,
  whose class is not part of this file: the model gives it the mapping \<^verbatim>\<open>options_dict\<close>
  the window reads and writes, and its remaining attributes.
\<close>

record OptionsManager =
  options_dict :: dict
  attributes :: obj

text \<open>
  The widgets of the Formats tab, which \<^verbatim>\<open>setup_formats_tab\<close> (line 2334) creates and
  passes to the four callbacks of the tab: for a button whether it is sensitive, for a
  liststore its rows (one column each), for the label its text. \<^verbatim>\<open>liststore\<close> belongs
  to the treeview of available formats on the left, \<^verbatim>\<open>other_liststore\<close> to the
  preference list on the right.
\<close>

record FormatsTab =
  add_button :: bool
  remove_button :: bool
  up_button :: bool
  down_button :: bool
  liststore :: "string list"
  other_liststore :: "string list"
  label :: string

record 'a OptionsEditWin = "(OptionsManager, 'a) EditWin" +
  formats_tab :: FormatsTab

definition video_only_text :: string where
  "video_only_text = ''Available video formats''"

definition video_audio_text :: string where
  "video_audio_text = ''Available video/audio formats''"

text \<open>
  The tables of the module \<^verbatim>\<open>formats\<close>, which is not part of this file, are parameters.
\<close>

record formats =
  VIDEO_OPTION_DICT :: "(string \<times> string) list"
  VIDEO_OPTION_LIST :: "string list"
  VIDEO_ONLY_OPTION_LIST :: "string list"

text \<open>
  \<^verbatim>\<open>app_obj.system_error(code, msg)\<close> belongs to the application object, which is not part
  of this file either. It is the parameter \<open>system_error\<close>: from the code, the message
  and the application object it gives the value the call returns and the application
  object after the report.
\<close>

type_synonym 'a system_error = "int \<Rightarrow> string \<Rightarrow> 'a \<Rightarrow> pyval \<times> 'a"

text \<open>\<^verbatim>\<open>OptionsEditWin.apply_changes\<close> (line 1884).\<close>

fun OptionsEditWin_apply_changes_loop ::
  "(OptionsManager, 'a, 'z) EditWin_scheme \<Rightarrow> string list
     \<Rightarrow> (OptionsManager, 'a, 'z) EditWin_scheme outcome" where
  "OptionsEditWin_apply_changes_loop self [] = Returned self"
| "OptionsEditWin_apply_changes_loop self (key # keys) =
     (case dict_getitem (edit_dict self) key of
        Inl e \<Rightarrow> Raised e self
      | Inr v \<Rightarrow>
          OptionsEditWin_apply_changes_loop
            (self\<lparr>edit_obj := (edit_obj self)
               \<lparr>options_dict := dict_setitem (options_dict (edit_obj self)) key v\<rparr>\<rparr>) keys)"

definition OptionsEditWin_apply_changes ::
  "(OptionsManager, 'a, 'z) EditWin_scheme \<Rightarrow> (OptionsManager, 'a, 'z) EditWin_scheme outcome" where
  "OptionsEditWin_apply_changes self =
     (case OptionsEditWin_apply_changes_loop self (dict_keys (edit_dict self)) of
        Raised e w \<Rightarrow> Raised e w
      | Returned w \<Rightarrow> Returned (w\<lparr>edit_dict := []\<rparr>))"

text \<open>\<^verbatim>\<open>OptionsEditWin.retrieve_val\<close> (line 1905). The apostrophe is character \<open>0x27\<close>.\<close>

definition OptionsEditWin_retrieve_val ::
  "'a system_error \<Rightarrow> (OptionsManager, 'a, 'z) EditWin_scheme \<Rightarrow> string
     \<Rightarrow> (error + pyval) \<times> (OptionsManager, 'a, 'z) EditWin_scheme" where
  "OptionsEditWin_retrieve_val system_error self name =
     (if dict_in name (edit_dict self) then (dict_getitem (edit_dict self) name, self)
      else if dict_in name (options_dict (edit_obj self))
      then (dict_getitem (options_dict (edit_obj self)) name, self)
      else
        (let (r, app) = system_error 404
               (''Unrecognised property name '' @ [CHR 0x27] @ name @ [CHR 0x27])
               (app_obj self)
         in (Inr r, self\<lparr>app_obj := app\<rparr>)))"

text \<open>
  The callbacks of the Formats tab read the three format options through
  \<^verbatim>\<open>self.retrieve_val\<close>. \<open>then_do\<close> continues with the value a call returned, in the
  window the call left, and passes an exception on.
\<close>

definition then_do ::
  "(error + 'x) \<times> 'w \<Rightarrow> ('x \<Rightarrow> 'w \<Rightarrow> 'w outcome) \<Rightarrow> 'w outcome" where
  "then_do r f = (case r of (Inl e, w) \<Rightarrow> Raised e w | (Inr x, w) \<Rightarrow> f x w)"

text \<open>
  \<^verbatim>\<open>model[iter][0]\<close> for a liststore of one column; \<^verbatim>\<open>formats.VIDEO_OPTION_DICT[name]\<close>;
  \<^verbatim>\<open>model.get_iter(path)\<close>, which raises ValueError for a path with no row and TypeError
  for a negative one.
\<close>

definition row_name :: "string list \<Rightarrow> nat \<Rightarrow> error + string" where
  "row_name model i = (if i < length model then Inr (model ! i) else Inl IndexError)"

definition video_option :: "formats \<Rightarrow> string \<Rightarrow> error + string" where
  "video_option fm name =
     (case map_of (VIDEO_OPTION_DICT fm) name of None \<Rightarrow> Inl KeyError | Some code \<Rightarrow> Inr code)"

definition get_iter :: "string list \<Rightarrow> int \<Rightarrow> error + nat" where
  "get_iter model path =
     (if path < 0 then Inl TypeError
      else if nat path < length model then Inr (nat path)
      else Inl ValueError)"

definition stage ::
  "string \<Rightarrow> pyval \<Rightarrow> ('o, 'a, 'z) EditWin_scheme \<Rightarrow> ('o, 'a, 'z) EditWin_scheme" where
  "stage prop v self = self\<lparr>edit_dict := dict_setitem (edit_dict self) prop v\<rparr>"

text \<open>\<^verbatim>\<open>OptionsEditWin.formats_tab_count_formats\<close> (line 3470).\<close>

definition formats_tab_count_formats ::
  "'a system_error \<Rightarrow> ('a, 'z) OptionsEditWin_scheme \<Rightarrow> (error + int) \<times> ('a, 'z) OptionsEditWin_scheme" where
  "formats_tab_count_formats system_error self =
     (case OptionsEditWin_retrieve_val system_error self ''video_format'' of
        (Inl e, self1) \<Rightarrow> (Inl e, self1)
      | (Inr v1, self1) \<Rightarrow>
          if v1 = PStr ''0'' then (Inr 0, self1)
          else
            (case OptionsEditWin_retrieve_val system_error self1 ''second_video_format'' of
               (Inl e, self2) \<Rightarrow> (Inl e, self2)
             | (Inr v2, self2) \<Rightarrow>
                 if v2 = PStr ''0'' then (Inr 1, self2)
                 else
                   (case OptionsEditWin_retrieve_val system_error self2 ''third_video_format'' of
                      (Inl e, self3) \<Rightarrow> (Inl e, self3)
                    | (Inr v3, self3) \<Rightarrow>
                        if v3 = PStr ''0'' then (Inr 2, self3) else (Inr 3, self3))))"

text \<open>
  \<^verbatim>\<open>OptionsEditWin.on_formats_tab_add_clicked\<close> (line 3686). \<open>iter\<close> is the selected row of
  the left treeview, \<^verbatim>\<open>None\<close> when nothing is selected.
\<close>

definition on_formats_tab_add_clicked ::
  "formats \<Rightarrow> 'a system_error \<Rightarrow> ('a, 'z) OptionsEditWin_scheme \<Rightarrow> nat option
     \<Rightarrow> ('a, 'z) OptionsEditWin_scheme outcome" where
  "on_formats_tab_add_clicked fm system_error self iter =
     (case iter of
        None \<Rightarrow> Returned self
      | Some i \<Rightarrow>
     (case row_name (liststore (formats_tab self)) i of
        Inl e \<Rightarrow> Raised e self
      | Inr name \<Rightarrow>
     (case video_option fm name of
        Inl e \<Rightarrow> Raised e self
      | Inr extract_code \<Rightarrow>
     then_do (OptionsEditWin_retrieve_val system_error self ''video_format'') (\<lambda>val1 self.
     then_do (OptionsEditWin_retrieve_val system_error self ''second_video_format'') (\<lambda>val2 self.
     then_do (OptionsEditWin_retrieve_val system_error self ''third_video_format'') (\<lambda>val3 self.
       if PStr extract_code = val1 \<or> PStr extract_code = val2 \<or> PStr extract_code = val3
       then Returned self
       else
         (case
            (if val1 = PStr ''0'' then Some (stage ''video_format'' (PStr extract_code) self)
             else if val2 = PStr ''0''
             then Some (stage ''second_video_format'' (PStr extract_code) self)
             else if val3 = PStr ''0''
             then Some ((stage ''third_video_format'' (PStr extract_code) self)
                    \<lparr>formats_tab := (formats_tab self)\<lparr>add_button := False\<rparr>\<rparr>)
             else None)
          of
            None \<Rightarrow> Returned self
          | Some self \<Rightarrow>
              (let self = self\<lparr>formats_tab := (formats_tab self)
                            \<lparr>other_liststore := other_liststore (formats_tab self) @ [name]\<rparr>\<rparr>;
                   self = self\<lparr>formats_tab := (formats_tab self)
                            \<lparr>remove_button := True, up_button := True, down_button := True\<rparr>\<rparr>;
                   self = self\<lparr>formats_tab := (formats_tab self)\<lparr>label := video_audio_text\<rparr>\<rparr>
               in then_do (OptionsEditWin_retrieve_val system_error self ''second_video_format'')
                    (\<lambda>v self.
                       if v = PStr ''0''
                       then Returned (self\<lparr>formats_tab := (formats_tab self)
                              \<lparr>liststore := VIDEO_OPTION_LIST fm\<rparr>\<rparr>)
                       else Returned self)))))))))"

text \<open>
  \<^verbatim>\<open>OptionsEditWin.on_formats_tab_down_clicked\<close> (line 3763). \<open>path_list\<close> holds the
  selected rows of the preference list; \<^verbatim>\<open>model.move_after(iter, position)\<close> takes the
  row of \<open>iter\<close> out and puts it back behind the row of \<open>position\<close>.
\<close>

definition insert_row :: "nat \<Rightarrow> string \<Rightarrow> string list \<Rightarrow> string list" where
  "insert_row k x model = take k model @ [x] @ drop k model"

definition move_after :: "string list \<Rightarrow> nat \<Rightarrow> nat \<Rightarrow> string list" where
  "move_after model i j =
     (let rest = take i model @ drop (Suc i) model;
          position = (if i < j then j - 1 else j)
      in insert_row (Suc position) (model ! i) rest)"

definition on_formats_tab_down_clicked ::
  "formats \<Rightarrow> 'a system_error \<Rightarrow> ('a, 'z) OptionsEditWin_scheme \<Rightarrow> nat list
     \<Rightarrow> ('a, 'z) OptionsEditWin_scheme outcome" where
  "on_formats_tab_down_clicked fm system_error self path_list =
     (case path_list of
        [] \<Rightarrow> Returned self
      | this_path # others \<Rightarrow>
     (case get_iter (other_liststore (formats_tab self)) (int this_path) of
        Inl e \<Rightarrow> Raised e self
      | Inr this_iter \<Rightarrow>
     (case row_name (other_liststore (formats_tab self)) this_iter of
        Inl e \<Rightarrow> Raised e self
      | Inr name \<Rightarrow>
     (case video_option fm name of
        Inl e \<Rightarrow> Raised e self
      | Inr extract_code \<Rightarrow>
     then_do (OptionsEditWin_retrieve_val system_error self ''video_format'') (\<lambda>val1 self.
     then_do (OptionsEditWin_retrieve_val system_error self ''second_video_format'') (\<lambda>val2 self.
     then_do (OptionsEditWin_retrieve_val system_error self ''third_video_format'') (\<lambda>val3 self.
       if PStr extract_code = val3 then Returned self
       else
         (case
            (if PStr extract_code = val2
             then Some (stage ''third_video_format'' val2 (stage ''second_video_format'' val3 self))
             else if PStr extract_code = val1
             then Some (stage ''second_video_format'' val1 (stage ''video_format'' val2 self))
             else None)
          of
            None \<Rightarrow> Returned self
          | Some self \<Rightarrow>
              (let model = other_liststore (formats_tab self);
                   next_path = int this_path + 1
               in case get_iter model (int this_path) of
                    Inl e \<Rightarrow> Raised e self
                  | Inr a \<Rightarrow>
                      (case get_iter model next_path of
                         Inl e \<Rightarrow> Raised e self
                       | Inr b \<Rightarrow>
                           Returned (self\<lparr>formats_tab := (formats_tab self)
                             \<lparr>other_liststore := move_after model a b\<rparr>\<rparr>)))))))))))"

text \<open>
  \<^verbatim>\<open>OptionsEditWin.on_formats_tab_remove_clicked\<close> (line 3822). \<open>iter\<close> is the selected row
  of the preference list.
\<close>

definition on_formats_tab_remove_clicked ::
  "formats \<Rightarrow> 'a system_error \<Rightarrow> ('a, 'z) OptionsEditWin_scheme \<Rightarrow> nat option
     \<Rightarrow> ('a, 'z) OptionsEditWin_scheme outcome" where
  "on_formats_tab_remove_clicked fm system_error self iter =
     (case iter of
        None \<Rightarrow> Returned self
      | Some i \<Rightarrow>
     (case row_name (other_liststore (formats_tab self)) i of
        Inl e \<Rightarrow> Raised e self
      | Inr name \<Rightarrow>
     (case video_option fm name of
        Inl e \<Rightarrow> Raised e self
      | Inr extract_code \<Rightarrow>
     then_do (OptionsEditWin_retrieve_val system_error self ''video_format'') (\<lambda>val1 self.
     then_do (OptionsEditWin_retrieve_val system_error self ''second_video_format'') (\<lambda>val2 self.
     then_do (OptionsEditWin_retrieve_val system_error self ''third_video_format'') (\<lambda>val3 self.
       (case
          (if PStr extract_code = val1
           then Some (stage ''third_video_format'' (PStr ''0'')
                  (stage ''second_video_format'' val3 (stage ''video_format'' val2 self)))
           else if PStr extract_code = val2
           then Some (stage ''third_video_format'' (PStr ''0'')
                  (stage ''second_video_format'' val3 self))
           else if PStr extract_code = val3
           then Some (stage ''third_video_format'' (PStr ''0'') self)
           else None)
        of
          None \<Rightarrow> Returned self
        | Some self \<Rightarrow>
            (let self = self\<lparr>formats_tab := (formats_tab self)
                          \<lparr>other_liststore := take i (other_liststore (formats_tab self))
                             @ drop (Suc i) (other_liststore (formats_tab self))\<rparr>\<rparr>;
                 self = self\<lparr>formats_tab := (formats_tab self)\<lparr>add_button := True\<rparr>\<rparr>
             in then_do (OptionsEditWin_retrieve_val system_error self ''video_format'')
                  (\<lambda>v self.
                     if v = PStr ''0''
                     then Returned (self\<lparr>formats_tab := (formats_tab self)
                            \<lparr>remove_button := False, up_button := False, down_button := False,
                             label := video_only_text, liststore := VIDEO_ONLY_OPTION_LIST fm\<rparr>\<rparr>)
                     else Returned self)))))))))"

text \<open>
  \<^verbatim>\<open>OptionsEditWin.on_formats_tab_up_clicked\<close> (line 3895);
  \<^verbatim>\<open>model.move_before(iter, position)\<close> puts the row of \<open>iter\<close> in front of the row of
  \<open>position\<close>.
\<close>

definition move_before :: "string list \<Rightarrow> nat \<Rightarrow> nat \<Rightarrow> string list" where
  "move_before model i j =
     (let rest = take i model @ drop (Suc i) model;
          position = (if i < j then j - 1 else j)
      in insert_row position (model ! i) rest)"

definition on_formats_tab_up_clicked ::
  "formats \<Rightarrow> 'a system_error \<Rightarrow> ('a, 'z) OptionsEditWin_scheme \<Rightarrow> nat list
     \<Rightarrow> ('a, 'z) OptionsEditWin_scheme outcome" where
  "on_formats_tab_up_clicked fm system_error self path_list =
     (case path_list of
        [] \<Rightarrow> Returned self
      | this_path # others \<Rightarrow>
     (case get_iter (other_liststore (formats_tab self)) (int this_path) of
        Inl e \<Rightarrow> Raised e self
      | Inr this_iter \<Rightarrow>
     (case row_name (other_liststore (formats_tab self)) this_iter of
        Inl e \<Rightarrow> Raised e self
      | Inr name \<Rightarrow>
     (case video_option fm name of
        Inl e \<Rightarrow> Raised e self
      | Inr extract_code \<Rightarrow>
     then_do (OptionsEditWin_retrieve_val system_error self ''video_format'') (\<lambda>val1 self.
     then_do (OptionsEditWin_retrieve_val system_error self ''second_video_format'') (\<lambda>val2 self.
     then_do (OptionsEditWin_retrieve_val system_error self ''third_video_format'') (\<lambda>val3 self.
       if PStr extract_code = val1 then Returned self
       else
         (case
            (if PStr extract_code = val2
             then Some (stage ''second_video_format'' val1 (stage ''video_format'' val2 self))
             else if PStr extract_code = val3
             then Some (stage ''third_video_format'' val2 (stage ''second_video_format'' val3 self))
             else None)
          of
            None \<Rightarrow> Returned self
          | Some self \<Rightarrow>
              (let model = other_liststore (formats_tab self);
                   prev_path = int this_path - 1
               in case get_iter model (int this_path) of
                    Inl e \<Rightarrow> Raised e self
                  | Inr a \<Rightarrow>
                      (case get_iter model prev_path of
                         Inl e \<Rightarrow> Raised e self
                       | Inr b \<Rightarrow>
                           Returned (self\<lparr>formats_tab := (formats_tab self)
                             \<lparr>other_liststore := move_before model a b\<rparr>\<rparr>)))))))))))"

text \<open>
  The three format options as \<^verbatim>\<open>retrieve_val\<close> shows them, and what it means for them to be
  packed to the left: an option that is \<^verbatim>\<open>'0'\<close> is followed by \<^verbatim>\<open>'0'\<close> only.
\<close>

definition format_slots ::
  "'a system_error \<Rightarrow> ('a, 'z) OptionsEditWin_scheme
     \<Rightarrow> (error + pyval) \<times> (error + pyval) \<times> (error + pyval)" where
  "format_slots system_error self =
     (fst (OptionsEditWin_retrieve_val system_error self ''video_format''),
      fst (OptionsEditWin_retrieve_val system_error self ''second_video_format''),
      fst (OptionsEditWin_retrieve_val system_error self ''third_video_format''))"

definition packed :: "(error + pyval) \<times> (error + pyval) \<times> (error + pyval) \<Rightarrow> bool" where
  "packed slots =
     (case slots of (v1, v2, v3) \<Rightarrow>
        if v1 = Inr (PStr ''0'') then v2 = Inr (PStr ''0'') \<and> v3 = Inr (PStr ''0'')
        else if v2 = Inr (PStr ''0'') then v3 = Inr (PStr ''0'')
        else True)"

section \<open>GenericPrefWin and SystemPrefWin\<close>

text \<open>
  A preference window works on the application object directly. \<^verbatim>\<open>SystemPrefWin\<close>
  (line 4959) has no dictionary of pending changes. Of its own widgets the model keeps the
  values of \<^verbatim>\<open>self.spinbutton\<close> and \<^verbatim>\<open>self.spinbutton2\<close>, which one of the callbacks sets;
  their range is 1 to 999 (line 5585). Making other widgets sensitive or insensitive and
  setting the text of an entry that has no callback is rendering and is left out.
\<close>

record 'a SystemPrefWin = "'a ConfigWin" +
  spinbutton :: real
  spinbutton2 :: real

text \<open>\<^verbatim>\<open>GenericPrefWin.on_button_ok_clicked\<close> (line 1754).\<close>

definition GenericPrefWin_on_button_ok_clicked ::
  "'a application \<Rightarrow> ('a, 'z) ConfigWin_scheme \<Rightarrow> ('a, 'z) ConfigWin_scheme" where
  "GenericPrefWin_on_button_ok_clicked app self = destroy app self"

text \<open>The truth value of a Python value, as \<^verbatim>\<open>not x\<close> and \<^verbatim>\<open>if x\<close> take it.\<close>

fun py_truth :: "pyval \<Rightarrow> bool" where
  "py_truth PNone = False"
| "py_truth (PBool b) = b"
| "py_truth (PInt i) = (i \<noteq> 0)"
| "py_truth (PFloat x) = (x \<noteq> 0)"
| "py_truth (PStr s) = (s \<noteq> [])"
| "py_truth (PList xs) = (xs \<noteq> [])"
| "py_truth (PTuple xs) = (xs \<noteq> [])"

text \<open>
  \<^verbatim>\<open>text.isdigit()\<close> and \<^verbatim>\<open>int(text)\<close>. Below code point 256 the digits of \<^verbatim>\<open>isdigit\<close> are
  \<^verbatim>\<open>0\<close> to \<^verbatim>\<open>9\<close> and the superscripts 178, 179 and 185; \<^verbatim>\<open>int\<close> reads \<^verbatim>\<open>0\<close> to \<^verbatim>\<open>9\<close> only and
  raises ValueError for a superscript. It also raises ValueError for a string of more
  digits than the interpreter's limit for the conversion, which is 4300 unless the
  interpreter is configured otherwise; leading zeros count.
\<close>

definition decimal_char :: "char \<Rightarrow> bool" where
  "decimal_char c = (let n = of_char c :: nat in 48 \<le> n \<and> n \<le> 57)"

definition digit_char :: "char \<Rightarrow> bool" where
  "digit_char c = (let n = of_char c :: nat in (48 \<le> n \<and> n \<le> 57) \<or> n = 178 \<or> n = 179 \<or> n = 185)"

definition py_isdigit :: "string \<Rightarrow> bool" where
  "py_isdigit s = (s \<noteq> [] \<and> list_all digit_char s)"

definition decimal_value :: "string \<Rightarrow> int" where
  "decimal_value s = foldl (\<lambda>acc c. 10 * acc + (int (of_char c) - 48)) 0 s"

definition max_str_digits :: nat where
  "max_str_digits = 4300"

definition py_int_of_str :: "string \<Rightarrow> error + int" where
  "py_int_of_str s =
     (if s \<noteq> [] \<and> list_all decimal_char s
      then (if length s > max_str_digits then Inl ValueError else Inr (decimal_value s))
      else Inl ValueError)"

text \<open>
  The 44 check buttons bound to a flag of the application object have the same body; for
  example \<^verbatim>\<open>on_archive_button_toggled\<close> (line 6511) with the flag
  \<^verbatim>\<open>allow_ytdl_archive_flag\<close>. The setter of a flag is \<^verbatim>\<open>set_\<close> followed by its name.
\<close>

definition flag_button_toggled ::
  "'a application \<Rightarrow> string \<Rightarrow> bool \<Rightarrow> ('a, 'z) ConfigWin_scheme \<Rightarrow> ('a, 'z) ConfigWin_scheme" where
  "flag_button_toggled app flag get_active self =
     (if get_active \<and> \<not> py_truth (attribute app (app_obj self) flag)
      then call app (''set_'' @ flag) [PBool True] self
      else if \<not> get_active \<and> py_truth (attribute app (app_obj self) flag)
      then call app (''set_'' @ flag) [PBool False] self
      else self)"

text \<open>
  Spin buttons, for example \<^verbatim>\<open>on_auto_delete_spinbutton_changed\<close> (line 6583); radio
  buttons, for example \<^verbatim>\<open>on_backup_button_toggled\<close> (line 6620); the two limit entries, for
  example \<^verbatim>\<open>on_check_limit_changed\<close> (line 6680); combo boxes, for example
  \<^verbatim>\<open>on_update_combo_changed\<close> (line 7994).
\<close>

definition spinbutton_changed ::
  "'a application \<Rightarrow> string \<Rightarrow> real \<Rightarrow> ('a, 'z) ConfigWin_scheme \<Rightarrow> ('a, 'z) ConfigWin_scheme" where
  "spinbutton_changed app setter get_value self = call app setter [PFloat get_value] self"

definition radiobutton_toggled ::
  "'a application \<Rightarrow> string \<Rightarrow> bool \<Rightarrow> pyval \<Rightarrow> ('a, 'z) ConfigWin_scheme
     \<Rightarrow> ('a, 'z) ConfigWin_scheme" where
  "radiobutton_toggled app setter get_active val self =
     (if get_active then call app setter [val] self else self)"

definition limit_entry_changed ::
  "'a application \<Rightarrow> string \<Rightarrow> string \<Rightarrow> ('a, 'z) ConfigWin_scheme
     \<Rightarrow> ('a, 'z) ConfigWin_scheme outcome" where
  "limit_entry_changed app setter text self =
     (if py_isdigit text
      then (case py_int_of_str text of
              Inl e \<Rightarrow> Raised e self
            | Inr n \<Rightarrow> if n \<ge> 0 then Returned (call app setter [PInt n] self) else Returned self)
      else Returned self)"

definition combo_changed ::
  "'a application \<Rightarrow> string \<Rightarrow> nat \<Rightarrow> nat option \<Rightarrow> pyval list list \<Rightarrow> ('a, 'z) ConfigWin_scheme
     \<Rightarrow> ('a, 'z) ConfigWin_scheme outcome" where
  "combo_changed app name col tree_iter model self =
     (case model_item model tree_iter col of
        Inl e \<Rightarrow> Raised e self
      | Inr v \<Rightarrow> Returned (call app name [v] self))"

text \<open>
  Check buttons and spin buttons that have a twin in the main window set the twin, whose
  own callback sets the application object; for example \<^verbatim>\<open>on_bandwidth_button_toggled\<close>
  (line 6638) and \<^verbatim>\<open>on_bandwidth_spinbutton_changed\<close> (line 6661).
\<close>

definition main_win_button_toggled ::
  "'a application \<Rightarrow> string \<Rightarrow> bool \<Rightarrow> ('a, 'z) ConfigWin_scheme \<Rightarrow> ('a, 'z) ConfigWin_scheme" where
  "main_win_button_toggled app widget get_active self =
     (let other_flag =
        py_truth (attribute app (app_obj self) (''main_win_obj.'' @ widget @ ''.get_active()''))
      in if get_active \<and> \<not> other_flag
         then call app (''main_win_obj.'' @ widget @ ''.set_active'') [PBool True] self
         else if \<not> get_active \<and> other_flag
         then call app (''main_win_obj.'' @ widget @ ''.set_active'') [PBool False] self
         else self)"

definition main_win_spinbutton_changed ::
  "'a application \<Rightarrow> string \<Rightarrow> real \<Rightarrow> ('a, 'z) ConfigWin_scheme \<Rightarrow> ('a, 'z) ConfigWin_scheme" where
  "main_win_spinbutton_changed app widget get_value self =
     call app (''main_win_obj.'' @ widget @ ''.set_value'') [PFloat get_value] self"

text \<open>\<^verbatim>\<open>SystemPrefWin.on_complex_button_toggled\<close> (line 6737).\<close>

definition on_complex_button_toggled ::
  "'a application \<Rightarrow> bool \<Rightarrow> ('a, 'z) ConfigWin_scheme \<Rightarrow> ('a, 'z) ConfigWin_scheme" where
  "on_complex_button_toggled app get_active self =
     (let (self, redraw_flag) =
        (if get_active \<and> \<not> py_truth (attribute app (app_obj self) ''complex_index_flag'')
         then (call app ''set_complex_index_flag'' [PBool True] self, True)
         else if \<not> get_active \<and> py_truth (attribute app (app_obj self) ''complex_index_flag'')
         then (call app ''set_complex_index_flag'' [PBool False] self, True)
         else (self, False))
      in if redraw_flag
         then call app ''main_win_obj.video_index_populate'' []
                (call app ''main_win_obj.video_catalogue_reset'' []
                  (call app ''main_win_obj.video_index_reset'' [] self))
         else self)"

text \<open>
  \<^verbatim>\<open>SystemPrefWin.on_match_spinbutton_changed\<close> (line 7338) and
  \<^verbatim>\<open>on_match_button_toggled\<close> (line 7300). A widget is told apart by its number: 1 is
  \<^verbatim>\<open>self.spinbutton\<close> or \<^verbatim>\<open>self.radiobutton\<close>, 2 and 3 the next ones.
  \<^verbatim>\<open>spinbutton.set_value(v)\<close> brings the value into the range of the spin button and, when
  the value changes, emits \<^verbatim>\<open>value-changed\<close>, which runs the callback connected to it; a
  value that is not a number is a TypeError.
\<close>

definition on_match_spinbutton_changed ::
  "'a application \<Rightarrow> nat \<Rightarrow> ('a, 'z) SystemPrefWin_scheme \<Rightarrow> ('a, 'z) SystemPrefWin_scheme" where
  "on_match_spinbutton_changed app which self =
     (if which = 1 then call app ''set_match_first_chars'' [PFloat (spinbutton self)] self
      else call app ''set_match_ignore_chars'' [PFloat (spinbutton2 self)] self)"

fun py_float :: "pyval \<Rightarrow> error + real" where
  "py_float (PInt i) = Inr (real_of_int i)"
| "py_float (PFloat x) = Inr x"
| "py_float (PBool b) = Inr (if b then 1 else 0)"
| "py_float v = Inl TypeError"

definition spinbutton_set_value ::
  "'a application \<Rightarrow> nat \<Rightarrow> pyval \<Rightarrow> ('a, 'z) SystemPrefWin_scheme
     \<Rightarrow> ('a, 'z) SystemPrefWin_scheme outcome" where
  "spinbutton_set_value app which v self =
     (case py_float v of
        Inl e \<Rightarrow> Raised e self
      | Inr x \<Rightarrow>
          (let y = max 1 (min 999 x) in
           if which = 1
           then (if y = spinbutton self then Returned self
                 else Returned (on_match_spinbutton_changed app 1 (self\<lparr>spinbutton := y\<rparr>)))
           else (if y = spinbutton2 self then Returned self
                 else Returned (on_match_spinbutton_changed app which (self\<lparr>spinbutton2 := y\<rparr>)))))"

definition on_match_button_toggled ::
  "'a application \<Rightarrow> nat \<Rightarrow> bool \<Rightarrow> ('a, 'z) SystemPrefWin_scheme
     \<Rightarrow> ('a, 'z) SystemPrefWin_scheme outcome" where
  "on_match_button_toggled app which get_active self =
     (let default_val = attribute app (app_obj self) ''match_default_chars'' in
      if get_active then
        if which = 1 then
          (case spinbutton_set_value app 1 default_val
                  (call app ''set_match_method'' [PStr ''exact_match''] self) of
             Raised e w \<Rightarrow> Raised e w
           | Returned w \<Rightarrow> spinbutton_set_value app 2 default_val w)
        else if which = 2 then
          spinbutton_set_value app 2 default_val
            (call app ''set_match_method'' [PStr ''match_first''] self)
        else
          spinbutton_set_value app 1 default_val
            (call app ''set_match_method'' [PStr ''ignore_last''] self)
      else Returned self)"

text \<open>
  \<^verbatim>\<open>SystemPrefWin.on_reset_ffmpeg_button_clicked\<close> (line 7657) and
  \<^verbatim>\<open>on_set_ffmpeg_button_clicked\<close> (line 7736). A file chooser gives the file name when
  the user confirms and nothing when the user cancels.
\<close>

definition on_reset_ffmpeg_button_clicked ::
  "'a application \<Rightarrow> ('a, 'z) ConfigWin_scheme \<Rightarrow> ('a, 'z) ConfigWin_scheme" where
  "on_reset_ffmpeg_button_clicked app self = call app ''set_ffmpeg_path'' [PNone] self"

definition on_set_ffmpeg_button_clicked ::
  "'a application \<Rightarrow> string option \<Rightarrow> ('a, 'z) ConfigWin_scheme \<Rightarrow> ('a, 'z) ConfigWin_scheme" where
  "on_set_ffmpeg_button_clicked app response self =
     (case response of
        None \<Rightarrow> self
      | Some new_path \<Rightarrow>
          if new_path \<noteq> [] then call app ''set_ffmpeg_path'' [PStr new_path] self else self)"

text \<open>
  \<^verbatim>\<open>SystemPrefWin.on_data_dir_button_clicked\<close> (line 6867). Its file chooser gives the
  folder the user confirms, and \<open>isfile\<close> is what \<^verbatim>\<open>os.path.isfile\<close> answers for the database
  file in that folder. The name of the database file is joined to the folder, which needs
  a string. When there is no database file the callback only opens a dialogue with the
  buttons yes and no, which is given \<^verbatim>\<open>switch_db\<close> to run on yes; when there is one it calls
  \<^verbatim>\<open>switch_db\<close> itself and reports how the call went.
\<close>

definition create_question :: "string \<Rightarrow> string" where
  "create_question new_path =
     ''Are you sure you want to create'' @ [CHR 0x0A] @ ''a new database at this location?''
       @ [CHR 0x0A, CHR 0x0A] @ new_path"

definition on_data_dir_button_clicked ::
  "'a application \<Rightarrow> string option \<Rightarrow> bool \<Rightarrow> ('a, 'z) ConfigWin_scheme
     \<Rightarrow> ('a, 'z) ConfigWin_scheme outcome" where
  "on_data_dir_button_clicked app response isfile self =
     (case response of
        None \<Rightarrow> Returned self
      | Some new_path \<Rightarrow>
          (case attribute app (app_obj self) ''db_file_name'' of
             PStr db_file_name \<Rightarrow>
               if \<not> isfile
               then Returned (call app ''dialogue_manager_obj.show_msg_dialogue''
                      [PStr (create_question new_path), PStr ''question'', PStr ''yes-no'',
                       PList [PTuple [PStr ''yes'', PStr ''switch_db''],
                              PTuple [PStr ''data'', PList [PStr new_path]]]] self)
               else if \<not> py_truth (returns app ''switch_db'' [PList [PStr new_path]] (app_obj self))
               then Returned (call app ''dialogue_manager_obj.show_msg_dialogue''
                      [PStr ''Database file not loaded'', PStr ''error'', PStr ''ok'']
                      (call app ''switch_db'' [PList [PStr new_path]] self))
               else Returned (call app ''dialogue_manager_obj.show_msg_dialogue''
                      [PStr ''Database file loaded'', PStr ''info'', PStr ''ok'']
                      (call app ''switch_db'' [PList [PStr new_path]] self))
           | _ \<Rightarrow> Raised TypeError self))"

text \<open>
  What a widget reports when its signal is emitted, the kinds of callback of
  \<^verbatim>\<open>SystemPrefWin\<close>, and the 73 callbacks of the class by name (lines 6511 to 8155), each
  with its kind and the flag, setter or main-window widget it works on.
\<close>

datatype reading =
    Active bool
  | Value real
  | Choice bool pyval
  | Entry string
  | Row "nat option" "pyval list list"
  | Match nat bool
  | MatchValue nat real
  | Clicked
  | Chosen "string option"
  | ChosenFolder "string option" bool

datatype handler =
    FlagButton string
  | Spinbutton string
  | Radiobutton string
  | LimitEntry string
  | ComboBox string nat
  | MainWinButton string
  | MainWinSpinbutton string
  | ComplexButton
  | MatchButton
  | MatchSpinbutton
  | ResetFfmpegButton
  | SetFfmpegButton
  | DataDirButton

definition SystemPrefWin_callbacks :: "(string \<times> handler) list" where
  "SystemPrefWin_callbacks =
     [(''on_archive_button_toggled'', FlagButton ''allow_ytdl_archive_flag''),
      (''on_auto_clone_button_toggled'', FlagButton ''auto_clone_options_flag''),
      (''on_auto_delete_button_toggled'', FlagButton ''auto_delete_flag''),
      (''on_auto_delete_spinbutton_changed'', Spinbutton ''set_auto_delete_days''),
      (''on_auto_update_button_toggled'', FlagButton ''operation_auto_update_flag''),
      (''on_backup_button_toggled'', Radiobutton ''set_db_backup_mode''),
      (''on_bandwidth_button_toggled'', MainWinButton ''bandwidth_checkbutton''),
      (''on_bandwidth_spinbutton_changed'', MainWinSpinbutton ''bandwidth_spinbutton''),
      (''on_check_limit_changed'', LimitEntry ''set_operation_check_limit''),
      (''on_check_mode_combo_changed'', ComboBox ''set_scheduled_check_mode'' 0),
      (''on_check_wait_spinbutton_changed'', Spinbutton ''set_scheduled_check_wait_hours''),
      (''on_complex_button_toggled'', ComplexButton),
      (''on_child_process_button_toggled'', FlagButton ''ignore_child_process_exit_flag''),
      (''on_clipboard_button_toggled'', FlagButton ''dialogue_copy_clipboard_flag''),
      (''on_close_to_tray_toggled'', FlagButton ''close_to_tray_flag''),
      (''on_convert_from_button_toggled'', Radiobutton ''set_operation_convert_mode''),
      (''on_copyright_button_toggled'', FlagButton ''ignore_yt_copyright_flag''),
      (''on_data_dir_button_clicked'', DataDirButton),
      (''on_delete_shutdown_button_toggled'', FlagButton ''delete_on_shutdown_flag''),
      (''on_delete_watched_button_toggled'', FlagButton ''auto_delete_watched_flag''),
      (''on_dialogue_button_toggled'', Radiobutton ''set_operation_dialogue_mode''),
      (''on_disable_dl_all_toggled'', FlagButton ''disable_dl_all_flag''),
      (''on_disk_stop_button_toggled'', FlagButton ''disk_space_stop_flag''),
      (''on_disk_stop_spinbutton_changed'', Spinbutton ''set_disk_space_stop_limit''),
      (''on_disk_warn_button_toggled'', FlagButton ''disk_space_warn_flag''),
      (''on_disk_warn_spinbutton_changed'', Spinbutton ''set_disk_space_warn_limit''),
      (''on_dl_mode_combo_changed'', ComboBox ''set_scheduled_dl_mode'' 0),
      (''on_dl_wait_spinbutton_changed'', Spinbutton ''set_scheduled_dl_wait_hours''),
      (''on_download_limit_changed'', LimitEntry ''set_operation_download_limit''),
      (''on_error_button_toggled'', MainWinButton ''show_error_checkbutton''),
      (''on_expand_tree_toggled'', FlagButton ''auto_expand_video_index_flag''),
      (''on_json_button_toggled'', FlagButton ''apply_json_timeout_flag''),
      (''on_keep_open_button_toggled'', FlagButton ''dialogue_keep_open_flag''),
      (''on_limit_button_toggled'', FlagButton ''operation_limit_flag''),
      (''on_match_button_toggled'', MatchButton),
      (''on_match_spinbutton_changed'', MatchSpinbutton),
      (''on_merge_button_toggled'', FlagButton ''ignore_merge_warning_flag''),
      (''on_moviepy_button_toggled'', FlagButton ''use_module_moviepy_flag''),
      (''on_moviepy_timeout_spinbutton_changed'', Spinbutton ''set_refresh_moviepy_timeout''),
      (''on_no_annotations_button_toggled'', FlagButton ''ignore_no_annotations_flag''),
      (''on_no_subtitles_button_toggled'', FlagButton ''ignore_no_subtitles_flag''),
      (''on_output_empty_button_toggled'', FlagButton ''ytdl_output_start_empty_flag''),
      (''on_output_summary_button_toggled'', FlagButton ''ytdl_output_show_summary_flag''),
      (''on_output_stderr_button_toggled'', FlagButton ''ytdl_output_stderr_flag''),
      (''on_output_stdout_button_toggled'', FlagButton ''ytdl_output_stdout_flag''),
      (''on_output_json_button_toggled'', FlagButton ''ytdl_output_ignore_json_flag''),
      (''on_output_progress_button_toggled'', FlagButton ''ytdl_output_ignore_progress_flag''),
      (''on_output_system_button_toggled'', FlagButton ''ytdl_output_system_cmd_flag''),
      (''on_refresh_videos_button_toggled'', FlagButton ''refresh_output_videos_flag''),
      (''on_refresh_verbose_button_toggled'', FlagButton ''refresh_output_verbose_flag''),
      (''on_reset_ffmpeg_button_clicked'', ResetFfmpegButton),
      (''on_reverse_button_toggled'', FlagButton ''results_list_reverse_flag''),
      (''on_save_button_toggled'', FlagButton ''operation_save_flag''),
      (''on_scheduled_stop_button_toggled'', FlagButton ''scheduled_stop_flag''),
      (''on_set_ffmpeg_button_clicked'', SetFfmpegButton),
      (''on_show_small_icons_toggled'', FlagButton ''show_small_icons_in_index''),
      (''on_show_status_icon_toggled'', FlagButton ''show_status_icon_flag''),
      (''on_show_tooltips_toggled'', FlagButton ''show_tooltips_flag''),
      (''on_squeeze_button_toggled'', FlagButton ''toolbar_squeeze_flag''),
      (''on_system_keep_button_toggled'', FlagButton ''system_msg_keep_totals_flag''),
      (''on_terminal_stderr_button_toggled'', FlagButton ''ytdl_write_stderr_flag''),
      (''on_terminal_stdout_button_toggled'', FlagButton ''ytdl_write_stdout_flag''),
      (''on_terminal_json_button_toggled'', FlagButton ''ytdl_write_ignore_json_flag''),
      (''on_terminal_progress_button_toggled'', FlagButton ''ytdl_write_ignore_progress_flag''),
      (''on_terminal_system_button_toggled'', FlagButton ''ytdl_write_system_cmd_flag''),
      (''on_update_combo_changed'', ComboBox ''set_ytdl_update_current'' 0),
      (''on_verbose_button_toggled'', FlagButton ''ytdl_write_verbose_flag''),
      (''on_warning_button_toggled'', MainWinButton ''show_warning_checkbutton''),
      (''on_worker_button_toggled'', MainWinButton ''num_worker_checkbutton''),
      (''on_worker_spinbutton_changed'', MainWinSpinbutton ''num_worker_spinbutton''),
      (''on_video_res_button_toggled'', MainWinButton ''video_res_checkbutton''),
      (''on_video_res_combo_changed'', ComboBox ''main_win_obj.set_video_res'' 0),
      (''on_ytdl_path_combo_changed'', ComboBox ''set_ytdl_path'' 1)]"

text \<open>
  A callback run on what its widget reports. Each kind of callback is connected to one
  kind of widget; on another kind the methods it calls do not exist.
\<close>

definition run_handler ::
  "'a application \<Rightarrow> handler \<Rightarrow> reading \<Rightarrow> ('a, 'z) SystemPrefWin_scheme
     \<Rightarrow> ('a, 'z) SystemPrefWin_scheme outcome" where
  "run_handler app h r self =
     (case h of
        FlagButton flag \<Rightarrow>
          (case r of Active b \<Rightarrow> Returned (flag_button_toggled app flag b self)
           | _ \<Rightarrow> Raised AttributeError self)
      | Spinbutton setter \<Rightarrow>
          (case r of Value x \<Rightarrow> Returned (spinbutton_changed app setter x self)
           | _ \<Rightarrow> Raised AttributeError self)
      | Radiobutton setter \<Rightarrow>
          (case r of Choice b v \<Rightarrow> Returned (radiobutton_toggled app setter b v self)
           | _ \<Rightarrow> Raised AttributeError self)
      | LimitEntry setter \<Rightarrow>
          (case r of Entry s \<Rightarrow> limit_entry_changed app setter s self
           | _ \<Rightarrow> Raised AttributeError self)
      | ComboBox name col \<Rightarrow>
          (case r of Row tree_iter model \<Rightarrow> combo_changed app name col tree_iter model self
           | _ \<Rightarrow> Raised AttributeError self)
      | MainWinButton widget \<Rightarrow>
          (case r of Active b \<Rightarrow> Returned (main_win_button_toggled app widget b self)
           | _ \<Rightarrow> Raised AttributeError self)
      | MainWinSpinbutton widget \<Rightarrow>
          (case r of Value x \<Rightarrow> Returned (main_win_spinbutton_changed app widget x self)
           | _ \<Rightarrow> Raised AttributeError self)
      | ComplexButton \<Rightarrow>
          (case r of Active b \<Rightarrow> Returned (on_complex_button_toggled app b self)
           | _ \<Rightarrow> Raised AttributeError self)
      | MatchButton \<Rightarrow>
          (case r of Match which b \<Rightarrow> on_match_button_toggled app which b self
           | _ \<Rightarrow> Raised AttributeError self)
      | MatchSpinbutton \<Rightarrow>
          (case r of
             MatchValue which x \<Rightarrow>
               Returned (on_match_spinbutton_changed app which
                 (if which = 1 then self\<lparr>spinbutton := x\<rparr> else self\<lparr>spinbutton2 := x\<rparr>))
           | _ \<Rightarrow> Raised AttributeError self)
      | ResetFfmpegButton \<Rightarrow>
          (case r of Clicked \<Rightarrow> Returned (on_reset_ffmpeg_button_clicked app self)
           | _ \<Rightarrow> Raised AttributeError self)
      | SetFfmpegButton \<Rightarrow>
          (case r of Chosen response \<Rightarrow> Returned (on_set_ffmpeg_button_clicked app response self)
           | _ \<Rightarrow> Raised AttributeError self)
      | DataDirButton \<Rightarrow>
          (case r of
             ChosenFolder response isfile \<Rightarrow> on_data_dir_button_clicked app response isfile self
           | _ \<Rightarrow> Raised AttributeError self))"

text \<open>
  The callback of the given name, run on what its widget reports; a name the class does
  not define is an AttributeError.
\<close>

definition SystemPrefWin_callback ::
  "'a application \<Rightarrow> string \<Rightarrow> reading \<Rightarrow> ('a, 'z) SystemPrefWin_scheme
     \<Rightarrow> ('a, 'z) SystemPrefWin_scheme outcome" where
  "SystemPrefWin_callback app name r self =
     (case map_of SystemPrefWin_callbacks name of
        None \<Rightarrow> Raised AttributeError self
      | Some h \<Rightarrow> run_handler app h r self)"

definition raised :: "'w outcome \<Rightarrow> error option" where
  "raised out = (case out of Returned w \<Rightarrow> None | Raised e w \<Rightarrow> Some e)"

text \<open>
  What it means that changes are applied at once. \<open>spec_calls_at_once\<close> lists the calls on the
  application object that a change of a widget is to bring about before its callback
  ends, in their order: the new value goes to its setter, or to the twin widget of the main
  window. There is no call for a check button that already agrees with its flag, for a
  radio button that is not active, for a limit entry whose text is not a decimal number
  of at most 4300 digits, for a combo box without an active row and for a file chooser
  that was cancelled. The check button of the Video Index also redraws the index. A radio
  button of the matching group sets the method and resets the spin buttons beside it to
  the default, and a spin button that changes thereby passes its value on. The button for
  the data directory switches the database only when the folder has a database file, and
  otherwise only asks. \<open>make_calls\<close> makes the calls.
\<close>

definition spec_match_method :: "nat \<Rightarrow> string" where
  "spec_match_method which =
     (if which = 1 then ''exact_match'' else if which = 2 then ''match_first'' else ''ignore_last'')"

definition spec_calls_at_once ::
  "'a application \<Rightarrow> ('a, 'z) SystemPrefWin_scheme \<Rightarrow> handler \<Rightarrow> reading
     \<Rightarrow> (string \<times> pyval list) list" where
  "spec_calls_at_once app self h r =
     (case h of
        FlagButton flag \<Rightarrow>
          (case r of
             Active b \<Rightarrow>
               if b = py_truth (attribute app (app_obj self) flag) then []
               else [(''set_'' @ flag, [PBool b])]
           | _ \<Rightarrow> [])
      | Spinbutton setter \<Rightarrow> (case r of Value x \<Rightarrow> [(setter, [PFloat x])] | _ \<Rightarrow> [])
      | Radiobutton setter \<Rightarrow>
          (case r of Choice b v \<Rightarrow> if b then [(setter, [v])] else [] | _ \<Rightarrow> [])
      | LimitEntry setter \<Rightarrow>
          (case r of
             Entry s \<Rightarrow>
               if s \<noteq> [] \<and> list_all decimal_char s \<and> length s \<le> 4300
               then [(setter, [PInt (decimal_value s)])]
               else []
           | _ \<Rightarrow> [])
      | ComboBox name col \<Rightarrow>
          (case r of
             Row (Some i) model \<Rightarrow>
               if i < length model \<and> col < length (model ! i) then [(name, [model ! i ! col])]
               else []
           | _ \<Rightarrow> [])
      | MainWinButton widget \<Rightarrow>
          (case r of
             Active b \<Rightarrow>
               if b = py_truth (attribute app (app_obj self)
                        (''main_win_obj.'' @ widget @ ''.get_active()''))
               then []
               else [(''main_win_obj.'' @ widget @ ''.set_active'', [PBool b])]
           | _ \<Rightarrow> [])
      | MainWinSpinbutton widget \<Rightarrow>
          (case r of
             Value x \<Rightarrow> [(''main_win_obj.'' @ widget @ ''.set_value'', [PFloat x])]
           | _ \<Rightarrow> [])
      | ComplexButton \<Rightarrow>
          (case r of
             Active b \<Rightarrow>
               if b = py_truth (attribute app (app_obj self) ''complex_index_flag'') then []
               else [(''set_complex_index_flag'', [PBool b]),
                     (''main_win_obj.video_index_reset'', []),
                     (''main_win_obj.video_catalogue_reset'', []),
                     (''main_win_obj.video_index_populate'', [])]
           | _ \<Rightarrow> [])
      | MatchButton \<Rightarrow>
          (case r of
             Match which b \<Rightarrow>
               if b then
                 (''set_match_method'', [PStr (spec_match_method which)]) #
                 (case py_float (attribute app (app_obj self) ''match_default_chars'') of
                    Inl e \<Rightarrow> []
                  | Inr d \<Rightarrow>
                      (let y = max 1 (min 999 d) in
                       (if which \<noteq> 2 \<and> y \<noteq> spinbutton self
                        then [(''set_match_first_chars'', [PFloat y])] else []) @
                       (if (which = 1 \<or> which = 2) \<and> y \<noteq> spinbutton2 self
                        then [(''set_match_ignore_chars'', [PFloat y])] else [])))
               else []
           | _ \<Rightarrow> [])
      | MatchSpinbutton \<Rightarrow>
          (case r of
             MatchValue which x \<Rightarrow>
               [(if which = 1 then ''set_match_first_chars'' else ''set_match_ignore_chars'',
                 [PFloat x])]
           | _ \<Rightarrow> [])
      | ResetFfmpegButton \<Rightarrow>
          (case r of Clicked \<Rightarrow> [(''set_ffmpeg_path'', [PNone])] | _ \<Rightarrow> [])
      | SetFfmpegButton \<Rightarrow>
          (case r of
             Chosen (Some path) \<Rightarrow>
               if path = [] then [] else [(''set_ffmpeg_path'', [PStr path])]
           | _ \<Rightarrow> [])
      | DataDirButton \<Rightarrow>
          (case r of
             ChosenFolder (Some path) isfile \<Rightarrow>
               (case attribute app (app_obj self) ''db_file_name'' of
                  PStr db_file_name \<Rightarrow>
                    if isfile
                    then [(''switch_db'', [PList [PStr path]]),
                          (''dialogue_manager_obj.show_msg_dialogue'',
                           if py_truth (returns app ''switch_db'' [PList [PStr path]] (app_obj self))
                           then [PStr ''Database file loaded'', PStr ''info'', PStr ''ok'']
                           else [PStr ''Database file not loaded'', PStr ''error'', PStr ''ok''])]
                    else [(''dialogue_manager_obj.show_msg_dialogue'',
                           [PStr (create_question path), PStr ''question'', PStr ''yes-no'',
                            PList [PTuple [PStr ''yes'', PStr ''switch_db''],
                                   PTuple [PStr ''data'', PList [PStr path]]]])]
                | _ \<Rightarrow> [])
           | _ \<Rightarrow> []))"

definition make_calls :: "'a application \<Rightarrow> (string \<times> pyval list) list \<Rightarrow> 'a \<Rightarrow> 'a" where
  "make_calls app cs a = fold (\<lambda>(name, args). invoke app name args) cs a"

text \<open>
  How the callback is to end: with the exception named, or by returning. An exception
  comes from a limit entry whose text is made of digits that \<^verbatim>\<open>int\<close> does not take, from a
  combo box without an active row, from a default that is not a number, from a name of
  the database file that is not a string, and from a widget of another kind.
\<close>

definition spec_ends_with ::
  "'a application \<Rightarrow> ('a, 'z) SystemPrefWin_scheme \<Rightarrow> handler \<Rightarrow> reading \<Rightarrow> error option" where
  "spec_ends_with app self h r =
     (case h of
        FlagButton flag \<Rightarrow> (case r of Active b \<Rightarrow> None | _ \<Rightarrow> Some AttributeError)
      | Spinbutton setter \<Rightarrow> (case r of Value x \<Rightarrow> None | _ \<Rightarrow> Some AttributeError)
      | Radiobutton setter \<Rightarrow> (case r of Choice b v \<Rightarrow> None | _ \<Rightarrow> Some AttributeError)
      | LimitEntry setter \<Rightarrow>
          (case r of
             Entry s \<Rightarrow>
               if py_isdigit s \<and> \<not> (list_all decimal_char s \<and> length s \<le> 4300)
               then Some ValueError else None
           | _ \<Rightarrow> Some AttributeError)
      | ComboBox name col \<Rightarrow>
          (case r of
             Row None model \<Rightarrow> Some TypeError
           | Row (Some i) model \<Rightarrow>
               if i < length model \<and> col < length (model ! i) then None else Some IndexError
           | _ \<Rightarrow> Some AttributeError)
      | MainWinButton widget \<Rightarrow> (case r of Active b \<Rightarrow> None | _ \<Rightarrow> Some AttributeError)
      | MainWinSpinbutton widget \<Rightarrow> (case r of Value x \<Rightarrow> None | _ \<Rightarrow> Some AttributeError)
      | ComplexButton \<Rightarrow> (case r of Active b \<Rightarrow> None | _ \<Rightarrow> Some AttributeError)
      | MatchButton \<Rightarrow>
          (case r of
             Match which b \<Rightarrow>
               if b then
                 (case py_float (attribute app (app_obj self) ''match_default_chars'') of
                    Inl e \<Rightarrow> Some e
                  | Inr d \<Rightarrow> None)
               else None
           | _ \<Rightarrow> Some AttributeError)
      | MatchSpinbutton \<Rightarrow> (case r of MatchValue which x \<Rightarrow> None | _ \<Rightarrow> Some AttributeError)
      | ResetFfmpegButton \<Rightarrow> (case r of Clicked \<Rightarrow> None | _ \<Rightarrow> Some AttributeError)
      | SetFfmpegButton \<Rightarrow> (case r of Chosen response \<Rightarrow> None | _ \<Rightarrow> Some AttributeError)
      | DataDirButton \<Rightarrow>
          (case r of
             ChosenFolder None isfile \<Rightarrow> None
           | ChosenFolder (Some path) isfile \<Rightarrow>
               (case attribute app (app_obj self) ''db_file_name'' of
                  PStr db_file_name \<Rightarrow> None
                | _ \<Rightarrow> Some TypeError)
           | _ \<Rightarrow> Some AttributeError))"

section \<open>Example windows\<close>

text \<open>
  A window editing a video whose name has been changed in the window but not yet applied,
  a second object, an error reporter that returns \<^verbatim>\<open>None\<close>, two rows of a format table, and
  a download-options window with two formats in its preference list.
\<close>

definition video_win :: "(obj, unit) EditWin" where
  "video_win =
     \<lparr>app_obj = (), notebook = [''_General''], destroyed = False,
      edit_obj = [(''name'', PStr ''Old name''), (''dbid'', PInt 7)],
      edit_dict = [(''name'', PStr ''New name'')]\<rparr>"

definition other_obj :: obj where
  "other_obj = [(''name'', PStr ''Other name''), (''dbid'', PInt 8)]"

definition no_report :: "unit system_error" where
  "no_report code msg app = (PNone, app)"

definition example_formats :: formats where
  "example_formats =
     \<lparr>VIDEO_OPTION_DICT = [(''mp4 [360p]'', ''18''), (''mp4 [720p]'', ''22'')],
      VIDEO_OPTION_LIST = [''mp4 [360p]'', ''mp4 [720p]''],
      VIDEO_ONLY_OPTION_LIST = [''mp4 [360p]'', ''mp4 [720p]'']\<rparr>"

definition options_win :: "unit OptionsEditWin" where
  "options_win =
     \<lparr>app_obj = (), notebook = [''_General'', ''F_ormats''], destroyed = False,
      edit_obj = \<lparr>options_dict =
          [(''video_format'', PStr ''18''), (''second_video_format'', PStr ''22''),
           (''third_video_format'', PStr ''0''), (''all_formats'', PBool False)],
        attributes = [(''name'', PStr ''general'')]\<rparr>,
      edit_dict = [(''all_formats'', PBool True)],
      formats_tab =
        \<lparr>add_button = True, remove_button = True, up_button = True, down_button = True,
         liststore = [''mp4 [360p]'', ''mp4 [720p]''],
         other_liststore = [''mp4 [360p]'', ''mp4 [720p]''],
         label = video_audio_text\<rparr>\<rparr>"

definition other_options :: OptionsManager where
  "other_options =
     \<lparr>options_dict =
        [(''video_format'', PStr ''137''), (''second_video_format'', PStr ''0''),
         (''third_video_format'', PStr ''0''), (''all_formats'', PBool False)],
      attributes = [(''name'', PStr ''other'')]\<rparr>"

text \<open>
  An application object that keeps its instance variables in a dictionary beside a log of
  the calls made on it, whose setters store their argument and whose calls return
  \<^verbatim>\<open>True\<close>; and a preference window.
\<close>

definition example_app :: "(dict \<times> (string \<times> pyval list) list) application" where
  "example_app =
     \<lparr>attribute = (\<lambda>a name. case map_of (fst a) name of None \<Rightarrow> PNone | Some v \<Rightarrow> v),
      invoke = (\<lambda>name args a.
        ((case args of
            [v] \<Rightarrow> if take 4 name = ''set_'' then dict_setitem (fst a) (drop 4 name) v else fst a
          | _ \<Rightarrow> fst a),
         snd a @ [(name, args)])),
      returns = (\<lambda>name args a. PBool True)\<rparr>"

definition pref_win :: "(dict \<times> (string \<times> pyval list) list) SystemPrefWin" where
  "pref_win =
     \<lparr>app_obj = ([(''operation_check_limit'', PInt 50), (''allow_ytdl_archive_flag'', PBool False),
                   (''db_file_name'', PStr ''tartube.db'')], []),
      notebook = [''_General''], destroyed = False, spinbutton = 1, spinbutton2 = 1\<rparr>"

section \<open>Dictionaries\<close>

lemma map_of_dict_setitem: "map_of (dict_setitem d k v) = (map_of d)(k \<mapsto> v)"
  by (induction d k v rule: dict_setitem.induct) auto

lemma dict_getitem_setitem_same: "dict_getitem (dict_setitem d k v) k = Inr v"
  by (simp add: dict_getitem_def map_of_dict_setitem)

lemma dict_getitem_key: "map_of d k = Some v \<Longrightarrow> dict_getitem d k = Inr v"
  by (simp add: dict_getitem_def)

lemma map_of_restrict_keys: "map_of d |` (fst ` set d) = map_of d"
  by (rule ext) (metis map_of_eq_None_iff restrict_in restrict_out)

section \<open>The checkbox and its flag\<close>

text \<open>
  C8. The toggle callback of a checkbutton bound to a property stores exactly \<^verbatim>\<open>True\<close>
  under that property when the checkbutton is active and exactly \<^verbatim>\<open>False\<close> when it is
  not: after the callback the staged flag equals the state of the checkbox, the callback
  returns, and no other key of the pending changes is touched.
\<close>

theorem checkbutton_reflects_flag:
  "\<exists>w. on_checkbutton_toggled self active p = Returned w
     \<and> dict_getitem (edit_dict w) p = Inr (PBool active)
     \<and> map_of (edit_dict w) = (map_of (edit_dict self))(p \<mapsto> PBool active)"
  by (cases active) (simp_all add: on_checkbutton_toggled_def dict_getitem_setitem_same
      map_of_dict_setitem)

theorem checkbutton_reflects_flag_witness:
  "\<exists>w. on_checkbutton_toggled video_win False ''name'' = Returned w
     \<and> dict_getitem (edit_dict w) ''name'' = Inr (PBool False)
     \<and> map_of (edit_dict w) = (map_of (edit_dict video_win))(''name'' \<mapsto> PBool False)"
  by (rule checkbutton_reflects_flag)

section \<open>Reading a property\<close>

text \<open>
  C4. \<^verbatim>\<open>GenericEditWin.retrieve_val\<close> returns the value stored in the pending changes when
  the name is a key of them, and otherwise what \<^verbatim>\<open>getattr\<close> gives for the attribute of that
  name on the edited object, which is the attribute's current value when the object has
  it. So a value that has just been staged for a property, directly or by the entry,
  checkbutton or spinbutton callback, is exactly the value retrieved for that property.
\<close>

theorem retrieve_val_staged_or_attribute:
  "(map_of (edit_dict self) name = Some v \<longrightarrow> retrieve_val self name = Inr v)
   \<and> (map_of (edit_dict self) name = None \<longrightarrow>
        retrieve_val self name = getattr (edit_obj self) name)
   \<and> (map_of (edit_dict self) name = None \<and> map_of (edit_obj self) name = Some v \<longrightarrow>
        retrieve_val self name = Inr v)
   \<and> retrieve_val (stage p x self) p = Inr x
   \<and> retrieve_val (state_of (on_entry_changed self s p)) p = Inr (PStr s)
   \<and> retrieve_val (state_of (on_checkbutton_toggled self active p)) p = Inr (PBool active)
   \<and> retrieve_val (state_of (on_spinbutton_changed self r p)) p = Inr (PInt (py_int r))"
  by (cases active)
     (simp_all add: retrieve_val_def dict_in_def dict_getitem_def getattr_def stage_def
      on_entry_changed_def on_checkbutton_toggled_def on_spinbutton_changed_def map_of_dict_setitem)

theorem retrieve_val_staged_or_attribute_witness:
  "map_of (edit_dict video_win) ''name'' = Some (PStr ''New name'')
   \<and> retrieve_val video_win ''name'' = Inr (PStr ''New name'')
   \<and> map_of (edit_dict video_win) ''dbid'' = None
   \<and> map_of (edit_obj video_win) ''dbid'' = Some (PInt 7)
   \<and> retrieve_val video_win ''dbid'' = Inr (PInt 7)"
proof -
  have a: "map_of (edit_dict video_win) ''name'' = Some (PStr ''New name'')"
    by (simp add: video_win_def)
  have b: "map_of (edit_dict video_win) ''dbid'' = None"
    by (simp add: video_win_def)
  have c: "map_of (edit_obj video_win) ''dbid'' = Some (PInt 7)"
    by (simp add: video_win_def)
  have "retrieve_val video_win ''name'' = Inr (PStr ''New name'')"
    using retrieve_val_staged_or_attribute [of video_win "''name''" "PStr ''New name''"] a by blast
  moreover have "retrieve_val video_win ''dbid'' = Inr (PInt 7)"
    using retrieve_val_staged_or_attribute [of video_win "''dbid''" "PInt 7"] b c by blast
  ultimately show ?thesis using a b c by blast
qed

section \<open>Change callbacks stage, and nothing else\<close>

lemma generic_rv_frame:
  "snd (generic_rv w n) = w\<lparr>edit_dict := edit_dict (snd (generic_rv w n))\<rparr>"
  by (simp add: generic_rv_def)

lemma OptionsEditWin_retrieve_val_edit_obj:
  "edit_obj (snd (OptionsEditWin_retrieve_val system_error w n)) = edit_obj w"
  by (simp add: OptionsEditWin_retrieve_val_def split: prod.splits)

lemma OptionsEditWin_retrieve_val_edit_dict:
  "edit_dict (snd (OptionsEditWin_retrieve_val system_error w n)) = edit_dict w"
  by (simp add: OptionsEditWin_retrieve_val_def split: prod.splits)

lemma callback_frame:
  assumes "\<And>w n. snd (rv w n) = w\<lparr>edit_dict := edit_dict (snd (rv w n))\<rparr>"
  shows "state_of (callback rv self ev)
       = self\<lparr>edit_dict := edit_dict (state_of (callback rv self ev))\<rparr>"
proof (cases ev)
  case (TextviewChanged s p)
  obtain r w1 where rv: "rv self p = (r, w1)" by (cases "rv self p")
  have w1: "w1 = self\<lparr>edit_dict := edit_dict w1\<rparr>" using assms[of self p] rv by simp
  show ?thesis
  proof (cases r)
    case (Inl e)
    then show ?thesis using TextviewChanged rv w1 by (simp add: on_textview_changed_def)
  next
    case (Inr old)
    have "\<And>d. w1\<lparr>edit_dict := d\<rparr> = self\<lparr>edit_dict := d\<rparr>"
      by (subst w1) simp
    then show ?thesis using TextviewChanged rv Inr
      by (cases old) (simp_all add: on_textview_changed_def)
  qed
qed (simp_all add: on_checkbutton_toggled_def on_combo_changed_def on_combo_with_data_changed_def
      on_entry_changed_def on_radiobutton_toggled_def on_spinbutton_changed_def
      split: sum.splits)

lemma callbacks_frame:
  assumes "\<And>w n. snd (rv w n) = w\<lparr>edit_dict := edit_dict (snd (rv w n))\<rparr>"
  shows "callbacks rv self evs = self\<lparr>edit_dict := edit_dict (callbacks rv self evs)\<rparr>"
proof (induction evs arbitrary: self)
  case Nil
  show ?case by simp
next
  case (Cons ev evs)
  let ?w = "state_of (callback rv self ev)"
  have a: "?w = self\<lparr>edit_dict := edit_dict ?w\<rparr>" by (rule callback_frame[OF assms])
  have b: "callbacks rv ?w evs = ?w\<lparr>edit_dict := edit_dict (callbacks rv ?w evs)\<rparr>"
    by (rule Cons.IH)
  have "callbacks rv ?w evs = self\<lparr>edit_dict := edit_dict (callbacks rv ?w evs)\<rparr>"
    by (subst b, subst a) simp
  then show ?case by simp
qed

lemma callback_edit_obj:
  assumes "\<And>w n. edit_obj (snd (rv w n)) = edit_obj w"
  shows "edit_obj (state_of (callback rv self ev)) = edit_obj self"
proof (cases ev)
  case (TextviewChanged s p)
  obtain r w1 where rv: "rv self p = (r, w1)" by (cases "rv self p")
  have w1: "edit_obj w1 = edit_obj self" using assms[of self p] rv by simp
  show ?thesis
  proof (cases r)
    case (Inl e)
    then show ?thesis using TextviewChanged rv w1 by (simp add: on_textview_changed_def)
  next
    case (Inr old)
    then show ?thesis using TextviewChanged rv w1
      by (cases old) (simp_all add: on_textview_changed_def)
  qed
qed (simp_all add: on_checkbutton_toggled_def on_combo_changed_def on_combo_with_data_changed_def
      on_entry_changed_def on_radiobutton_toggled_def on_spinbutton_changed_def
      split: sum.splits)

lemma callbacks_edit_obj:
  assumes "\<And>w n. edit_obj (snd (rv w n)) = edit_obj w"
  shows "edit_obj (callbacks rv self evs) = edit_obj self"
  by (induction evs arbitrary: self) (simp_all add: callback_edit_obj[OF assms])

text \<open>
  C3. Whatever sequence of widget changes happens in an edit window before a
  confirmation, the change callbacks (checkbutton, combo, entry, radiobutton, spinbutton,
  textview) leave the edited object as it was. In a window that uses the generic
  \<^verbatim>\<open>retrieve_val\<close> they modify the pending changes and nothing else of the window; in
  the download-options window, whose \<^verbatim>\<open>retrieve_val\<close> may report an unrecognised name to the
  application object, the edited object is unchanged all the same.
\<close>

theorem change_callbacks_leave_edit_obj:
  "callbacks generic_rv self evs = self\<lparr>edit_dict := edit_dict (callbacks generic_rv self evs)\<rparr>
   \<and> edit_obj (callbacks generic_rv self evs) = edit_obj self
   \<and> edit_obj (callbacks (OptionsEditWin_retrieve_val system_error) win evs) = edit_obj win"
proof (intro conjI)
  show a: "callbacks generic_rv self evs
         = self\<lparr>edit_dict := edit_dict (callbacks generic_rv self evs)\<rparr>"
    by (rule callbacks_frame) (rule generic_rv_frame)
  show "edit_obj (callbacks generic_rv self evs) = edit_obj self"
    by (subst a) simp
  show "edit_obj (callbacks (OptionsEditWin_retrieve_val system_error) win evs) = edit_obj win"
    by (rule callbacks_edit_obj) (rule OptionsEditWin_retrieve_val_edit_obj)
qed

theorem change_callbacks_leave_edit_obj_witness:
  "edit_obj (callbacks generic_rv video_win
       [EntryChanged ''Newer name'' ''name'', CheckbuttonToggled True ''dl_sim_flag'',
        TextviewChanged ''a b'' ''name'', SpinbuttonChanged 2.5 ''dbid''])
     = [(''name'', PStr ''Old name''), (''dbid'', PInt 7)]
   \<and> edit_obj (callbacks (OptionsEditWin_retrieve_val no_report) options_win
       [CheckbuttonToggled False ''all_formats'', TextviewChanged ''x'' ''unknown''])
     = edit_obj options_win"
proof -
  have a: "edit_obj video_win = [(''name'', PStr ''Old name''), (''dbid'', PInt 7)]"
    by (simp add: video_win_def)
  have b: "edit_obj (callbacks generic_rv video_win
       [EntryChanged ''Newer name'' ''name'', CheckbuttonToggled True ''dl_sim_flag'',
        TextviewChanged ''a b'' ''name'', SpinbuttonChanged 2.5 ''dbid'']) = edit_obj video_win"
    by (rule conjunct1 [OF conjunct2 [OF change_callbacks_leave_edit_obj]])
  have c: "edit_obj (callbacks (OptionsEditWin_retrieve_val no_report) options_win
       [CheckbuttonToggled False ''all_formats'', TextviewChanged ''x'' ''unknown''])
     = edit_obj options_win"
    by (rule conjunct2 [OF conjunct2 [OF change_callbacks_leave_edit_obj [of video_win]]])
  show ?thesis using a b c by (simp only: simp_thms)
qed

section \<open>Applying the pending changes\<close>

lemma setattr_two_arguments: "setattr ob [v] = Inl TypeError"
  by (cases v) simp_all

lemma apply_changes_raises:
  assumes "edit_dict self \<noteq> []"
  shows "apply_changes self = Raised TypeError self"
proof -
  obtain k v rest where d: "edit_dict self = (k, v) # rest"
    using assms by (cases "edit_dict self") auto
  have "apply_changes_loop self (dict_keys (edit_dict self)) = Raised TypeError self"
    by (simp add: d dict_keys_def dict_getitem_def)
  then show ?thesis by (simp add: apply_changes_def)
qed

lemma apply_changes_nothing_pending:
  "edit_dict self = [] \<Longrightarrow> apply_changes self = Returned self"
  by (simp add: apply_changes_def dict_keys_def)

text \<open>
  C1. With a pending change in \<^verbatim>\<open>edit_dict\<close>, \<^verbatim>\<open>GenericEditWin.apply_changes\<close> raises
  TypeError at the first key: the window of a video whose name was edited keeps the old
  name on the edited object and keeps its pending change, and the 'OK' button, which calls
  \<^verbatim>\<open>apply_changes\<close> first, raises as well and does not destroy the window.
\<close>

theorem apply_changes_TypeError:
  "edit_dict video_win = [(''name'', PStr ''New name'')]
   \<and> apply_changes video_win = Raised TypeError video_win
   \<and> on_button_ok_clicked app video_win = Raised TypeError video_win
   \<and> getattr (edit_obj (state_of (on_button_ok_clicked app video_win))) ''name''
       = Inr (PStr ''Old name'')
   \<and> edit_dict (state_of (on_button_ok_clicked app video_win)) \<noteq> []
   \<and> destroyed (state_of (on_button_ok_clicked app video_win)) = False"
proof -
  have a: "apply_changes video_win = Raised TypeError video_win"
    by (rule apply_changes_raises) (simp add: video_win_def)
  then have b: "on_button_ok_clicked app video_win = Raised TypeError video_win"
    by (simp add: on_button_ok_clicked_def)
  show ?thesis unfolding a b by (simp add: video_win_def getattr_def)
qed

lemma OptionsEditWin_apply_changes_loop_result:
  "set keys \<subseteq> fst ` set (edit_dict self) \<Longrightarrow>
   \<exists>w. OptionsEditWin_apply_changes_loop self keys = Returned w
     \<and> w = self\<lparr>edit_obj := (edit_obj self)\<lparr>options_dict := options_dict (edit_obj w)\<rparr>\<rparr>
     \<and> map_of (options_dict (edit_obj w))
         = map_of (options_dict (edit_obj self)) ++ (map_of (edit_dict self) |` set keys)"
proof (induction keys arbitrary: self)
  case Nil
  show ?case by simp
next
  case (Cons key keys)
  from Cons.prems obtain v where v: "map_of (edit_dict self) key = Some v"
    by (cases "map_of (edit_dict self) key") (auto simp: map_of_eq_None_iff)
  let ?s = "self\<lparr>edit_obj := (edit_obj self)
               \<lparr>options_dict := dict_setitem (options_dict (edit_obj self)) key v\<rparr>\<rparr>"
  have "set keys \<subseteq> fst ` set (edit_dict ?s)" using Cons.prems by simp
  from Cons.IH[OF this] obtain w where w:
    "OptionsEditWin_apply_changes_loop ?s keys = Returned w"
    "w = ?s\<lparr>edit_obj := (edit_obj ?s)\<lparr>options_dict := options_dict (edit_obj w)\<rparr>\<rparr>"
    "map_of (options_dict (edit_obj w))
       = map_of (options_dict (edit_obj ?s)) ++ (map_of (edit_dict ?s) |` set keys)"
    by blast
  have 1: "OptionsEditWin_apply_changes_loop self (key # keys) = Returned w"
    using v w(1) by (simp add: dict_getitem_key)
  have 2: "w = self\<lparr>edit_obj := (edit_obj self)\<lparr>options_dict := options_dict (edit_obj w)\<rparr>\<rparr>"
    by (subst w(2)) simp
  have 3: "map_of (options_dict (edit_obj w))
       = map_of (options_dict (edit_obj self)) ++ (map_of (edit_dict self) |` set (key # keys))"
    using w(3) v
    by (auto simp: map_of_dict_setitem map_add_def restrict_map_def fun_eq_iff split: option.splits)
  show ?case using 1 2 3 by blast
qed

text \<open>
  C7. \<^verbatim>\<open>OptionsEditWin.apply_changes\<close> returns, having copied every pair of the pending
  changes into \<^verbatim>\<open>self.edit_obj.options_dict\<close> (a key of the pending changes gets its
  pending value, every other key of \<^verbatim>\<open>options_dict\<close> keeps its value) and emptied
  \<^verbatim>\<open>edit_dict\<close>; the other attributes of the options manager, and everything else in the
  window, are as before.
\<close>

theorem OptionsEditWin_apply_changes_copies:
  "\<exists>w. OptionsEditWin_apply_changes self = Returned w
     \<and> edit_dict w = []
     \<and> map_of (options_dict (edit_obj w))
         = map_of (options_dict (edit_obj self)) ++ map_of (edit_dict self)
     \<and> (\<forall>k v. map_of (edit_dict self) k = Some v
           \<longrightarrow> dict_getitem (options_dict (edit_obj w)) k = Inr v)
     \<and> attributes (edit_obj w) = attributes (edit_obj self)
     \<and> w = self\<lparr>edit_obj := (edit_obj self)\<lparr>options_dict := options_dict (edit_obj w)\<rparr>,
                edit_dict := []\<rparr>"
proof -
  have "set (dict_keys (edit_dict self)) \<subseteq> fst ` set (edit_dict self)"
    by (simp add: dict_keys_def)
  from OptionsEditWin_apply_changes_loop_result[OF this] obtain w where w:
    "OptionsEditWin_apply_changes_loop self (dict_keys (edit_dict self)) = Returned w"
    "w = self\<lparr>edit_obj := (edit_obj self)\<lparr>options_dict := options_dict (edit_obj w)\<rparr>\<rparr>"
    "map_of (options_dict (edit_obj w))
       = map_of (options_dict (edit_obj self)) ++ map_of (edit_dict self)"
    by (auto simp: dict_keys_def map_of_restrict_keys)
  let ?w = "w\<lparr>edit_dict := []\<rparr>"
  have r: "OptionsEditWin_apply_changes self = Returned ?w"
    using w(1) by (simp add: OptionsEditWin_apply_changes_def)
  have m: "map_of (options_dict (edit_obj ?w))
       = map_of (options_dict (edit_obj self)) ++ map_of (edit_dict self)"
    using w(3) by simp
  have g: "\<forall>k v. map_of (edit_dict self) k = Some v
           \<longrightarrow> dict_getitem (options_dict (edit_obj ?w)) k = Inr v"
    using w(3) by (simp add: dict_getitem_def map_add_def)
  have a: "attributes (edit_obj ?w) = attributes (edit_obj self)"
    by (subst w(2)) simp
  have f: "?w = self\<lparr>edit_obj := (edit_obj self)\<lparr>options_dict := options_dict (edit_obj ?w)\<rparr>,
                edit_dict := []\<rparr>"
    by (subst w(2)) simp
  show ?thesis using r m g a f by (intro exI[of _ ?w]) simp
qed

theorem OptionsEditWin_apply_changes_copies_witness:
  "map_of (edit_dict options_win) ''all_formats'' = Some (PBool True)
   \<and> (\<exists>w. OptionsEditWin_apply_changes options_win = Returned w
        \<and> edit_dict w = []
        \<and> dict_getitem (options_dict (edit_obj w)) ''all_formats'' = Inr (PBool True)
        \<and> attributes (edit_obj w) = [(''name'', PStr ''general'')])"
proof -
  have a: "map_of (edit_dict options_win) ''all_formats'' = Some (PBool True)"
    by (simp add: options_win_def)
  have b: "attributes (edit_obj options_win) = [(''name'', PStr ''general'')]"
    by (simp add: options_win_def)
  from OptionsEditWin_apply_changes_copies [of options_win] obtain w where w:
    "OptionsEditWin_apply_changes options_win = Returned w" "edit_dict w = []"
    "\<forall>k v. map_of (edit_dict options_win) k = Some v
       \<longrightarrow> dict_getitem (options_dict (edit_obj w)) k = Inr v"
    "attributes (edit_obj w) = attributes (edit_obj options_win)"
    by blast
  from w(3) a have "dict_getitem (options_dict (edit_obj w)) ''all_formats'' = Inr (PBool True)"
    by blast
  with w(1,2,4) a b show ?thesis by simp
qed

section \<open>An unrecognised property name\<close>

text \<open>
  C10. When the name is a key neither of the pending changes nor of
  \<^verbatim>\<open>self.edit_obj.options_dict\<close>, \<^verbatim>\<open>OptionsEditWin.retrieve_val\<close> raises nothing of its own:
  it calls \<^verbatim>\<open>app_obj.system_error\<close> with code 404 and the message 'Unrecognised property
  name' followed by the quoted name, and returns what that call returns. Both mappings are
  as before; only the application object is what the report leaves.
\<close>

theorem OptionsEditWin_retrieve_val_unrecognised:
  assumes "\<not> dict_in name (edit_dict self)"
    and "\<not> dict_in name (options_dict (edit_obj self))"
  shows "OptionsEditWin_retrieve_val system_error self name =
       (Inr (fst (system_error 404
               (''Unrecognised property name '' @ [CHR 0x27] @ name @ [CHR 0x27]) (app_obj self))),
        self\<lparr>app_obj := snd (system_error 404
               (''Unrecognised property name '' @ [CHR 0x27] @ name @ [CHR 0x27]) (app_obj self))\<rparr>)
     \<and> edit_dict (snd (OptionsEditWin_retrieve_val system_error self name)) = edit_dict self
     \<and> edit_obj (snd (OptionsEditWin_retrieve_val system_error self name)) = edit_obj self"
  using assms by (simp add: OptionsEditWin_retrieve_val_def case_prod_unfold Let_def)

theorem OptionsEditWin_retrieve_val_unrecognised_witness:
  "\<not> dict_in ''no_such_option'' (edit_dict options_win)
   \<and> \<not> dict_in ''no_such_option'' (options_dict (edit_obj options_win))
   \<and> OptionsEditWin_retrieve_val no_report options_win ''no_such_option''
       = (Inr PNone, options_win)"
proof -
  have a: "\<not> dict_in ''no_such_option'' (edit_dict options_win)"
    by (simp add: options_win_def dict_in_def)
  have b: "\<not> dict_in ''no_such_option'' (options_dict (edit_obj options_win))"
    by (simp add: options_win_def dict_in_def)
  have "OptionsEditWin_retrieve_val no_report options_win ''no_such_option''
      = (Inr PNone, options_win)"
    using OptionsEditWin_retrieve_val_unrecognised [OF a b, of no_report]
    by (simp add: no_report_def)
  with a b show ?thesis by simp
qed

section \<open>The radiobutton callback\<close>

lemma on_radiobutton_toggled_raises:
  "on_radiobutton_toggled self checkbutton p v = Raised NameError self"
  by (simp add: on_radiobutton_toggled_def lookup_widget_def module_names_def)

text \<open>
  C2. \<^verbatim>\<open>GenericEditWin.on_radiobutton_toggled\<close> raises NameError whether the toggled button
  is active or not, and stages nothing: after the callback for an active button the
  property is still not a key of the pending changes.
\<close>

theorem radiobutton_NameError:
  "on_radiobutton_toggled video_win True ''name'' (PStr ''Chosen'') = Raised NameError video_win
   \<and> on_radiobutton_toggled video_win False ''name'' (PStr ''Chosen'') = Raised NameError video_win
   \<and> dict_getitem (edit_dict (state_of
         (on_radiobutton_toggled video_win True ''dbid'' (PInt 9)))) ''dbid'' = Inl KeyError"
  by (simp add: on_radiobutton_toggled_raises) (simp add: video_win_def dict_getitem_def)

section \<open>Discarding the pending changes\<close>

lemma setup_tabs_fields:
  "edit_dict (setup_tabs tabs self) = edit_dict self
   \<and> edit_obj (setup_tabs tabs self) = edit_obj self
   \<and> notebook (setup_tabs tabs self) = notebook self @ tabs
   \<and> app_obj (setup_tabs tabs self) = app_obj self"
  unfolding setup_tabs_def
  by (induction tabs arbitrary: self) (simp_all add: add_notebook_tab_def)

lemma remove_all_pages_all: "remove_all_pages (length pages) pages = []"
proof (induction "length pages" arbitrary: pages)
  case 0
  then show ?case by simp
next
  case (Suc n)
  then obtain x xs where "pages = x # xs" by (cases pages) auto
  with Suc show ?case by (simp add: remove_page_def)
qed

text \<open>
  C5, in the form that holds. The 'Reset' button empties the pending changes without
  applying any of them: the edited object is the same as before, and reading a property
  then gives the value the object has. \<^verbatim>\<open>reset_with_new_edit_obj\<close> empties the pending
  changes too, but makes \<^verbatim>\<open>self.edit_obj\<close> the object it is given, with none of the pending
  changes applied to it, and reading a property then gives the value of that object. Both
  redraw the tabs. This holds for the windows that read with \<^verbatim>\<open>GenericEditWin.retrieve_val\<close>
  (\<open>self\<close>), where the value is the attribute of the object, and for the window of
  download options (\<open>win\<close>), the one with a 'Reset' button and the one whose
  \<^verbatim>\<open>on_simple_options_clicked\<close> calls \<^verbatim>\<open>reset_with_new_edit_obj\<close>: it reads with
  \<^verbatim>\<open>OptionsEditWin.retrieve_val\<close>, where the value is the entry of the object's
  \<^verbatim>\<open>options_dict\<close>, or what \<^verbatim>\<open>system_error\<close> returns for a name that is not a key of it.
\<close>

theorem reset_discards_pending_changes:
  "edit_dict (on_button_reset_clicked tabs self) = []
   \<and> edit_obj (on_button_reset_clicked tabs self) = edit_obj self
   \<and> retrieve_val (on_button_reset_clicked tabs self) name = getattr (edit_obj self) name
   \<and> notebook (on_button_reset_clicked tabs self) = tabs
   \<and> edit_dict (reset_with_new_edit_obj tabs self new_edit_obj) = []
   \<and> edit_obj (reset_with_new_edit_obj tabs self new_edit_obj) = new_edit_obj
   \<and> retrieve_val (reset_with_new_edit_obj tabs self new_edit_obj) name
       = getattr new_edit_obj name
   \<and> notebook (reset_with_new_edit_obj tabs self new_edit_obj) = tabs
   \<and> edit_dict (on_button_reset_clicked tabs win) = []
   \<and> edit_obj (on_button_reset_clicked tabs win) = edit_obj win
   \<and> fst (OptionsEditWin_retrieve_val system_error (on_button_reset_clicked tabs win) name)
       = (if dict_in name (options_dict (edit_obj win))
          then dict_getitem (options_dict (edit_obj win)) name
          else Inr (fst (system_error 404
                 (''Unrecognised property name '' @ [CHR 0x27] @ name @ [CHR 0x27])
                 (app_obj win))))
   \<and> edit_dict (reset_with_new_edit_obj tabs win new_options) = []
   \<and> edit_obj (reset_with_new_edit_obj tabs win new_options) = new_options
   \<and> fst (OptionsEditWin_retrieve_val system_error
            (reset_with_new_edit_obj tabs win new_options) name)
       = (if dict_in name (options_dict new_options)
          then dict_getitem (options_dict new_options) name
          else Inr (fst (system_error 404
                 (''Unrecognised property name '' @ [CHR 0x27] @ name @ [CHR 0x27])
                 (app_obj win))))"
  by (simp add: on_button_reset_clicked_def reset_with_new_edit_obj_def Let_def setup_tabs_fields
      retrieve_val_def OptionsEditWin_retrieve_val_def dict_in_def remove_all_pages_all
      case_prod_unfold)

theorem reset_discards_pending_changes_witness:
  "edit_dict options_win = [(''all_formats'', PBool True)]
   \<and> edit_dict (on_button_reset_clicked [''_General''] options_win) = []
   \<and> edit_obj (on_button_reset_clicked [''_General''] options_win) = edit_obj options_win
   \<and> fst (OptionsEditWin_retrieve_val no_report
        (on_button_reset_clicked [''_General''] options_win) ''all_formats'') = Inr (PBool False)
   \<and> fst (OptionsEditWin_retrieve_val no_report
        (reset_with_new_edit_obj [''_General''] options_win other_options) ''all_formats'')
       = Inr (PBool False)
   \<and> edit_dict video_win \<noteq> []
   \<and> edit_dict (on_button_reset_clicked [''_General''] video_win) = []
   \<and> retrieve_val (on_button_reset_clicked [''_General''] video_win) ''name''
       = Inr (PStr ''Old name'')
   \<and> retrieve_val (reset_with_new_edit_obj [''_General''] video_win other_obj) ''name''
       = Inr (PStr ''Other name'')"
proof -
  have a: "getattr (edit_obj video_win) ''name'' = Inr (PStr ''Old name'')"
    by (simp add: video_win_def getattr_def)
  have b: "getattr other_obj ''name'' = Inr (PStr ''Other name'')"
    by (simp add: other_obj_def getattr_def)
  have c: "edit_dict video_win \<noteq> []" by (simp add: video_win_def)
  have d: "edit_dict options_win = [(''all_formats'', PBool True)]"
    by (simp add: options_win_def)
  have e: "dict_in ''all_formats'' (options_dict (edit_obj options_win))
      \<and> dict_getitem (options_dict (edit_obj options_win)) ''all_formats'' = Inr (PBool False)"
    by (simp add: options_win_def dict_in_def dict_getitem_def)
  have f: "dict_in ''all_formats'' (options_dict other_options)
      \<and> dict_getitem (options_dict other_options) ''all_formats'' = Inr (PBool False)"
    by (simp add: other_options_def dict_in_def dict_getitem_def)
  note t1 = reset_discards_pending_changes [where tabs = "[''_General'']" and self = video_win
      and name = "''name''" and new_edit_obj = other_obj and win = options_win
      and system_error = no_report and new_options = other_options]
  note t2 = reset_discards_pending_changes [where tabs = "[''_General'']" and self = video_win
      and name = "''all_formats''" and new_edit_obj = other_obj and win = options_win
      and system_error = no_report and new_options = other_options]
  show ?thesis
    using t1 t2 a b c d e f by simp
qed

text \<open>
  The claim as first stated, that after either operation the edited object
  \<^verbatim>\<open>self.edit_obj\<close> is unchanged and \<^verbatim>\<open>retrieve_val\<close> returns its original values, fails
  for \<^verbatim>\<open>reset_with_new_edit_obj\<close>: called with another options manager, the window of
  download options then edits that object and \<^verbatim>\<open>retrieve_val\<close> returns its video format
  137, not the 18 of the object edited before. The same happens in a window that reads
  attributes.
\<close>

theorem reset_with_new_edit_obj_replaces_object:
  "edit_obj (reset_with_new_edit_obj [''_General''] options_win other_options)
     \<noteq> edit_obj options_win
   \<and> fst (OptionsEditWin_retrieve_val no_report
        (reset_with_new_edit_obj [''_General''] options_win other_options) ''video_format'')
       = Inr (PStr ''137'')
   \<and> dict_getitem (options_dict (edit_obj options_win)) ''video_format'' = Inr (PStr ''18'')
   \<and> edit_obj (reset_with_new_edit_obj [''_General''] video_win other_obj) \<noteq> edit_obj video_win
   \<and> retrieve_val (reset_with_new_edit_obj [''_General''] video_win other_obj) ''dbid''
       = Inr (PInt 8)
   \<and> getattr (edit_obj video_win) ''dbid'' = Inr (PInt 7)"
  by (simp add: reset_with_new_edit_obj_def Let_def setup_tabs_fields retrieve_val_def dict_in_def
      OptionsEditWin_retrieve_val_def dict_getitem_def other_options_def options_win_def
      getattr_def video_win_def other_obj_def)

section \<open>The three format options\<close>

text \<open>
  The lemmas below take a window in which reading each of the three options leaves the
  window as it is, which is so whenever the option is a key of the pending changes or of
  \<^verbatim>\<open>options_dict\<close>. They give the options after each of the four callbacks, and with
  them: 'Add format' and 'Remove format' keep the options packed; 'Move up' does when no
  format has the code \<^verbatim>\<open>'0'\<close>; 'Move down' does when all three options are set.
\<close>

lemma rv_stage_same:
  "OptionsEditWin_retrieve_val se (stage k v self) k = (Inr v, stage k v self)"
  by (simp add: OptionsEditWin_retrieve_val_def stage_def dict_in_def dict_getitem_def
      map_of_dict_setitem)

lemma rv_stage_other:
  assumes nk: "n \<noteq> k" and rv: "OptionsEditWin_retrieve_val se self n = (Inr x, self)"
  shows "OptionsEditWin_retrieve_val se (stage k v self) n = (Inr x, stage k v self)"
proof (cases "dict_in n (edit_dict self) \<or> dict_in n (options_dict (edit_obj self))")
  case True
  then show ?thesis using nk rv
    by (auto simp: OptionsEditWin_retrieve_val_def stage_def dict_in_def dict_getitem_def
        map_of_dict_setitem split: if_splits)
next
  case False
  obtain r app where se: "se 404 (''Unrecognised property name '' @ [CHR 0x27] @ n @ [CHR 0x27])
      (app_obj self) = (r, app)" by (cases "se 404 (''Unrecognised property name '' @ [CHR 0x27] @ n @ [CHR 0x27]) (app_obj self)")
  from rv False se have r: "r = x" and w: "self\<lparr>app_obj := app\<rparr> = self"
    by (simp_all add: OptionsEditWin_retrieve_val_def)
  from w have "app_obj (self\<lparr>app_obj := app\<rparr>) = app_obj self" by (rule arg_cong)
  then have a: "app = app_obj self" by simp
  from False nk have "\<not> dict_in n (edit_dict (stage k v self))"
    "\<not> dict_in n (options_dict (edit_obj (stage k v self)))"
    by (simp_all add: stage_def dict_in_def map_of_dict_setitem)
  then show ?thesis using se r a
    by (simp add: OptionsEditWin_retrieve_val_def stage_def)
qed

lemma rv_formats_tab:
  assumes rv: "OptionsEditWin_retrieve_val se self n = (Inr x, self)"
  shows "OptionsEditWin_retrieve_val se (self\<lparr>formats_tab := t\<rparr>) n
       = (Inr x, self\<lparr>formats_tab := t\<rparr>)"
proof (cases "dict_in n (edit_dict self) \<or> dict_in n (options_dict (edit_obj self))")
  case True
  then show ?thesis using rv
    by (auto simp: OptionsEditWin_retrieve_val_def split: if_splits)
next
  case False
  obtain r app where se: "se 404 (''Unrecognised property name '' @ [CHR 0x27] @ n @ [CHR 0x27])
      (app_obj self) = (r, app)" by (cases "se 404 (''Unrecognised property name '' @ [CHR 0x27] @ n @ [CHR 0x27]) (app_obj self)")
  from rv False se have r: "r = x" and w: "self\<lparr>app_obj := app\<rparr> = self"
    by (simp_all add: OptionsEditWin_retrieve_val_def)
  from w have "app_obj (self\<lparr>app_obj := app\<rparr>) = app_obj self" by (rule arg_cong)
  then have a: "app = app_obj self" by simp
  show ?thesis using False se r a
    by (simp add: OptionsEditWin_retrieve_val_def)
qed


lemma rv_value: "\<exists>x. fst (OptionsEditWin_retrieve_val se self n) = Inr x"
  by (auto simp: OptionsEditWin_retrieve_val_def dict_in_def dict_getitem_def Let_def
      split: prod.splits option.splits)

lemma rv_stable_stage_other:
  assumes "snd (OptionsEditWin_retrieve_val se self n) = self" and "n \<noteq> k"
  shows "OptionsEditWin_retrieve_val se (stage k v self) n
       = (fst (OptionsEditWin_retrieve_val se self n), stage k v self)"
proof -
  obtain x where "fst (OptionsEditWin_retrieve_val se self n) = Inr x" using rv_value by blast
  with assms(1) have "OptionsEditWin_retrieve_val se self n = (Inr x, self)"
    by (metis prod.collapse)
  from rv_stage_other[OF assms(2) this] show ?thesis
    using \<open>fst (OptionsEditWin_retrieve_val se self n) = Inr x\<close> by simp
qed

lemma rv_stable_formats_tab:
  assumes "snd (OptionsEditWin_retrieve_val se self n) = self"
  shows "OptionsEditWin_retrieve_val se (self\<lparr>formats_tab := t\<rparr>) n
       = (fst (OptionsEditWin_retrieve_val se self n), self\<lparr>formats_tab := t\<rparr>)"
proof -
  obtain x where "fst (OptionsEditWin_retrieve_val se self n) = Inr x" using rv_value by blast
  with assms(1) have "OptionsEditWin_retrieve_val se self n = (Inr x, self)"
    by (metis prod.collapse)
  from rv_formats_tab[OF this] show ?thesis
    using \<open>fst (OptionsEditWin_retrieve_val se self n) = Inr x\<close> by simp
qed

lemma rv_pair:
  assumes "snd (OptionsEditWin_retrieve_val se self n) = self"
  shows "\<exists>x. OptionsEditWin_retrieve_val se self n = (Inr x, self)"
proof -
  from rv_value obtain x where "fst (OptionsEditWin_retrieve_val se self n) = Inr x" by blast
  with assms have "OptionsEditWin_retrieve_val se self n = (Inr x, self)"
    by (simp add: prod_eq_iff)
  then show ?thesis by blast
qed

lemma remove_slots:
  assumes x1: "OptionsEditWin_retrieve_val se self ''video_format'' = (Inr x1, self)"
    and x2: "OptionsEditWin_retrieve_val se self ''second_video_format'' = (Inr x2, self)"
    and x3: "OptionsEditWin_retrieve_val se self ''third_video_format'' = (Inr x3, self)"
    and row: "row_name (other_liststore (formats_tab self)) i = Inr name"
    and code: "video_option fm name = Inr c"
  shows "format_slots se (state_of (on_formats_tab_remove_clicked fm se self (Some i))) =
     (if PStr c = x1 then (Inr x2, Inr x3, Inr (PStr ''0''))
      else if PStr c = x2 then (Inr x1, Inr x3, Inr (PStr ''0''))
      else if PStr c = x3 then (Inr x1, Inr x2, Inr (PStr ''0''))
      else (Inr x1, Inr x2, Inr x3))"
proof -
  have s: "snd (OptionsEditWin_retrieve_val se self ''video_format'') = self"
    "snd (OptionsEditWin_retrieve_val se self ''second_video_format'') = self"
    "snd (OptionsEditWin_retrieve_val se self ''third_video_format'') = self"
    using x1 x2 x3 by simp_all
  note rules = rv_stage_same rv_stable_stage_other rv_stable_formats_tab
  consider (a) "PStr c = x1" | (b) "PStr c \<noteq> x1" "PStr c = x2"
    | (c) "PStr c \<noteq> x1" "PStr c \<noteq> x2" "PStr c = x3"
    | (d) "PStr c \<noteq> x1" "PStr c \<noteq> x2" "PStr c \<noteq> x3" by blast
  then show ?thesis
  proof cases
    case d
    then show ?thesis using x1 x2 x3 row code
      by (simp add: on_formats_tab_remove_clicked_def then_do_def format_slots_def)
  next
    case a
    then show ?thesis using x1 x2 x3 row code s
      by (simp add: on_formats_tab_remove_clicked_def then_do_def format_slots_def Let_def rules
          del: if_split cong: if_cong)
  next
    case b
    then show ?thesis using x1 x2 x3 row code s
      by (simp add: on_formats_tab_remove_clicked_def then_do_def format_slots_def Let_def rules)
  next
    case c
    then show ?thesis using x1 x2 x3 row code s
      by (simp add: on_formats_tab_remove_clicked_def then_do_def format_slots_def Let_def rules)
  qed
qed


lemma add_slots:
  assumes x1: "OptionsEditWin_retrieve_val se self ''video_format'' = (Inr x1, self)"
    and x2: "OptionsEditWin_retrieve_val se self ''second_video_format'' = (Inr x2, self)"
    and x3: "OptionsEditWin_retrieve_val se self ''third_video_format'' = (Inr x3, self)"
    and row: "row_name (liststore (formats_tab self)) i = Inr name"
    and code: "video_option fm name = Inr c"
  shows "format_slots se (state_of (on_formats_tab_add_clicked fm se self (Some i))) =
     (if PStr c = x1 \<or> PStr c = x2 \<or> PStr c = x3 then (Inr x1, Inr x2, Inr x3)
      else if x1 = PStr ''0'' then (Inr (PStr c), Inr x2, Inr x3)
      else if x2 = PStr ''0'' then (Inr x1, Inr (PStr c), Inr x3)
      else if x3 = PStr ''0'' then (Inr x1, Inr x2, Inr (PStr c))
      else (Inr x1, Inr x2, Inr x3))"
proof -
  have s: "snd (OptionsEditWin_retrieve_val se self ''video_format'') = self"
    "snd (OptionsEditWin_retrieve_val se self ''second_video_format'') = self"
    "snd (OptionsEditWin_retrieve_val se self ''third_video_format'') = self"
    using x1 x2 x3 by simp_all
  note rules = rv_stage_same rv_stable_stage_other rv_stable_formats_tab
  consider (same) "PStr c = x1 \<or> PStr c = x2 \<or> PStr c = x3"
    | (a) "\<not> (PStr c = x1 \<or> PStr c = x2 \<or> PStr c = x3)" "x1 = PStr ''0''"
    | (b) "\<not> (PStr c = x1 \<or> PStr c = x2 \<or> PStr c = x3)" "x1 \<noteq> PStr ''0''" "x2 = PStr ''0''"
    | (c) "\<not> (PStr c = x1 \<or> PStr c = x2 \<or> PStr c = x3)" "x1 \<noteq> PStr ''0''" "x2 \<noteq> PStr ''0''"
        "x3 = PStr ''0''"
    | (d) "\<not> (PStr c = x1 \<or> PStr c = x2 \<or> PStr c = x3)" "x1 \<noteq> PStr ''0''" "x2 \<noteq> PStr ''0''"
        "x3 \<noteq> PStr ''0''" by blast
  then show ?thesis
  proof cases
    case same
    then show ?thesis using x1 x2 x3 row code
      by (simp add: on_formats_tab_add_clicked_def then_do_def format_slots_def)
  next
    case a
    then show ?thesis using x1 x2 x3 row code s
      by (simp add: on_formats_tab_add_clicked_def then_do_def format_slots_def Let_def rules)
  next
    case b
    then show ?thesis using x1 x2 x3 row code s
      by (simp add: on_formats_tab_add_clicked_def then_do_def format_slots_def Let_def rules)
  next
    case c
    then show ?thesis using x1 x2 x3 row code s
      by (simp add: on_formats_tab_add_clicked_def then_do_def format_slots_def Let_def rules)
  next
    case d
    then show ?thesis using x1 x2 x3 row code
      by (simp add: on_formats_tab_add_clicked_def then_do_def format_slots_def)
  qed
qed

lemma up_slots:
  assumes x1: "OptionsEditWin_retrieve_val se self ''video_format'' = (Inr x1, self)"
    and x2: "OptionsEditWin_retrieve_val se self ''second_video_format'' = (Inr x2, self)"
    and x3: "OptionsEditWin_retrieve_val se self ''third_video_format'' = (Inr x3, self)"
    and it: "get_iter (other_liststore (formats_tab self)) (int this_path) = Inr this_iter"
    and row: "row_name (other_liststore (formats_tab self)) this_iter = Inr name"
    and code: "video_option fm name = Inr c"
  shows "format_slots se (state_of (on_formats_tab_up_clicked fm se self (this_path # others))) =
     (if PStr c = x1 then (Inr x1, Inr x2, Inr x3)
      else if PStr c = x2 then (Inr x2, Inr x1, Inr x3)
      else if PStr c = x3 then (Inr x1, Inr x3, Inr x2)
      else (Inr x1, Inr x2, Inr x3))"
proof -
  have s: "snd (OptionsEditWin_retrieve_val se self ''video_format'') = self"
    "snd (OptionsEditWin_retrieve_val se self ''second_video_format'') = self"
    "snd (OptionsEditWin_retrieve_val se self ''third_video_format'') = self"
    using x1 x2 x3 by simp_all
  note rules = rv_stage_same rv_stable_stage_other rv_stable_formats_tab
  consider (a) "PStr c = x1" | (b) "PStr c \<noteq> x1" "PStr c = x2"
    | (c) "PStr c \<noteq> x1" "PStr c \<noteq> x2" "PStr c = x3"
    | (d) "PStr c \<noteq> x1" "PStr c \<noteq> x2" "PStr c \<noteq> x3" by blast
  then show ?thesis
  proof cases
    case a
    then show ?thesis using x1 x2 x3 it row code
      by (simp add: on_formats_tab_up_clicked_def then_do_def format_slots_def)
  next
    case b
    then show ?thesis using x1 x2 x3 it row code s
      by (simp add: on_formats_tab_up_clicked_def then_do_def format_slots_def Let_def rules
          split: sum.splits)
  next
    case c
    then show ?thesis using x1 x2 x3 it row code s
      by (simp add: on_formats_tab_up_clicked_def then_do_def format_slots_def Let_def rules
          split: sum.splits)
  next
    case d
    then show ?thesis using x1 x2 x3 it row code
      by (simp add: on_formats_tab_up_clicked_def then_do_def format_slots_def)
  qed
qed

lemma down_slots:
  assumes x1: "OptionsEditWin_retrieve_val se self ''video_format'' = (Inr x1, self)"
    and x2: "OptionsEditWin_retrieve_val se self ''second_video_format'' = (Inr x2, self)"
    and x3: "OptionsEditWin_retrieve_val se self ''third_video_format'' = (Inr x3, self)"
    and it: "get_iter (other_liststore (formats_tab self)) (int this_path) = Inr this_iter"
    and row: "row_name (other_liststore (formats_tab self)) this_iter = Inr name"
    and code: "video_option fm name = Inr c"
  shows "format_slots se (state_of (on_formats_tab_down_clicked fm se self (this_path # others))) =
     (if PStr c = x3 then (Inr x1, Inr x2, Inr x3)
      else if PStr c = x2 then (Inr x1, Inr x3, Inr x2)
      else if PStr c = x1 then (Inr x2, Inr x1, Inr x3)
      else (Inr x1, Inr x2, Inr x3))"
proof -
  have s: "snd (OptionsEditWin_retrieve_val se self ''video_format'') = self"
    "snd (OptionsEditWin_retrieve_val se self ''second_video_format'') = self"
    "snd (OptionsEditWin_retrieve_val se self ''third_video_format'') = self"
    using x1 x2 x3 by simp_all
  note rules = rv_stage_same rv_stable_stage_other rv_stable_formats_tab
  consider (a) "PStr c = x3" | (b) "PStr c \<noteq> x3" "PStr c = x2"
    | (c) "PStr c \<noteq> x3" "PStr c \<noteq> x2" "PStr c = x1"
    | (d) "PStr c \<noteq> x1" "PStr c \<noteq> x2" "PStr c \<noteq> x3" by blast
  then show ?thesis
  proof cases
    case a
    then show ?thesis using x1 x2 x3 it row code
      by (simp add: on_formats_tab_down_clicked_def then_do_def format_slots_def)
  next
    case b
    then show ?thesis using x1 x2 x3 it row code s
      by (simp add: on_formats_tab_down_clicked_def then_do_def format_slots_def Let_def rules
          split: sum.splits)
  next
    case c
    then show ?thesis using x1 x2 x3 it row code s
      by (simp add: on_formats_tab_down_clicked_def then_do_def format_slots_def Let_def rules
          split: sum.splits)
  next
    case d
    then show ?thesis using x1 x2 x3 it row code
      by (simp add: on_formats_tab_down_clicked_def then_do_def format_slots_def)
  qed
qed


lemma slots_of_stable:
  assumes "snd (OptionsEditWin_retrieve_val se self ''video_format'') = self"
    and "snd (OptionsEditWin_retrieve_val se self ''second_video_format'') = self"
    and "snd (OptionsEditWin_retrieve_val se self ''third_video_format'') = self"
  obtains x1 x2 x3 where
    "OptionsEditWin_retrieve_val se self ''video_format'' = (Inr x1, self)"
    "OptionsEditWin_retrieve_val se self ''second_video_format'' = (Inr x2, self)"
    "OptionsEditWin_retrieve_val se self ''third_video_format'' = (Inr x3, self)"
    "format_slots se self = (Inr x1, Inr x2, Inr x3)"
proof -
  from rv_pair[OF assms(1)] obtain x1 where
    x1: "OptionsEditWin_retrieve_val se self ''video_format'' = (Inr x1, self)" by blast
  from rv_pair[OF assms(2)] obtain x2 where
    x2: "OptionsEditWin_retrieve_val se self ''second_video_format'' = (Inr x2, self)" by blast
  from rv_pair[OF assms(3)] obtain x3 where
    x3: "OptionsEditWin_retrieve_val se self ''third_video_format'' = (Inr x3, self)" by blast
  have "format_slots se self = (Inr x1, Inr x2, Inr x3)"
    by (simp add: format_slots_def x1 x2 x3)
  then show ?thesis using that[OF x1 x2 x3] by simp
qed

lemma packed_iff:
  "packed (Inr x1, Inr x2, Inr x3) \<longleftrightarrow>
     (x1 = PStr ''0'' \<and> x2 = PStr ''0'' \<and> x3 = PStr ''0'')
     \<or> (x1 \<noteq> PStr ''0'' \<and> x2 = PStr ''0'' \<and> x3 = PStr ''0'')
     \<or> (x1 \<noteq> PStr ''0'' \<and> x2 \<noteq> PStr ''0'')"
  by (simp add: packed_def)

lemma packed_remove:
  assumes p: "packed (Inr x1, Inr x2, Inr x3)"
  shows "packed (if PStr c = x1 then (Inr x2, Inr x3, Inr (PStr ''0''))
            else if PStr c = x2 then (Inr x1, Inr x3, Inr (PStr ''0''))
            else if PStr c = x3 then (Inr x1, Inr x2, Inr (PStr ''0''))
            else (Inr x1, Inr x2, Inr x3))"
  using p unfolding packed_iff by (simp only: if_split packed_iff) blast


lemma packed_up:
  assumes p: "packed (Inr x1, Inr x2, Inr x3)" and c: "c \<noteq> ''0''"
  shows "packed (if PStr c = x1 then (Inr x1, Inr x2, Inr x3)
              else if PStr c = x2 then (Inr x2, Inr x1, Inr x3)
              else if PStr c = x3 then (Inr x1, Inr x3, Inr x2)
              else (Inr x1, Inr x2, Inr x3))"
  using p c unfolding packed_iff by (simp only: if_split packed_iff) blast

lemma packed_down:
  assumes p: "packed (Inr x1, Inr x2, Inr x3)" and x3: "x3 \<noteq> PStr ''0''"
  shows "packed (if PStr c = x3 then (Inr x1, Inr x2, Inr x3)
              else if PStr c = x2 then (Inr x1, Inr x3, Inr x2)
              else if PStr c = x1 then (Inr x2, Inr x1, Inr x3)
              else (Inr x1, Inr x2, Inr x3))"
  using p x3 unfolding packed_iff by (simp only: if_split packed_iff) blast

lemma packed_add:
  assumes p: "packed (Inr x1, Inr x2, Inr x3)"
  shows "packed (if PStr c = x1 \<or> PStr c = x2 \<or> PStr c = x3 then (Inr x1, Inr x2, Inr x3)
            else if x1 = PStr ''0'' then (Inr (PStr c), Inr x2, Inr x3)
            else if x2 = PStr ''0'' then (Inr x1, Inr (PStr c), Inr x3)
            else if x3 = PStr ''0'' then (Inr x1, Inr x2, Inr (PStr c))
            else (Inr x1, Inr x2, Inr x3))"
  using p unfolding packed_iff by (simp only: if_split packed_iff) blast

lemma add_keeps_packed:
  assumes s1: "snd (OptionsEditWin_retrieve_val se self ''video_format'') = self"
    and s2: "snd (OptionsEditWin_retrieve_val se self ''second_video_format'') = self"
    and s3: "snd (OptionsEditWin_retrieve_val se self ''third_video_format'') = self"
    and p: "packed (format_slots se self)"
  shows "packed (format_slots se (state_of (on_formats_tab_add_clicked fm se self iter)))"
proof -
  from slots_of_stable[OF s1 s2 s3] obtain x1 x2 x3 where x:
    "OptionsEditWin_retrieve_val se self ''video_format'' = (Inr x1, self)"
    "OptionsEditWin_retrieve_val se self ''second_video_format'' = (Inr x2, self)"
    "OptionsEditWin_retrieve_val se self ''third_video_format'' = (Inr x3, self)"
    "format_slots se self = (Inr x1, Inr x2, Inr x3)" by blast
  have pk: "packed (Inr x1, Inr x2, Inr x3)" using p x(4) by simp
  show ?thesis
  proof (cases iter)
    case None
    then show ?thesis using p by (simp add: on_formats_tab_add_clicked_def)
  next
    case (Some i)
    show ?thesis
    proof (cases "row_name (liststore (formats_tab self)) i")
      case (Inl e)
      then show ?thesis using p Some by (simp add: on_formats_tab_add_clicked_def)
    next
      case (Inr name)
      show ?thesis
      proof (cases "video_option fm name")
        case (Inl e)
        then show ?thesis using p Some Inr by (simp add: on_formats_tab_add_clicked_def)
      next
        case code: (Inr c)
        show ?thesis unfolding Some add_slots[OF x(1-3) Inr code] by (rule packed_add[OF pk])
      qed
    qed
  qed
qed

lemma remove_keeps_packed:
  assumes s1: "snd (OptionsEditWin_retrieve_val se self ''video_format'') = self"
    and s2: "snd (OptionsEditWin_retrieve_val se self ''second_video_format'') = self"
    and s3: "snd (OptionsEditWin_retrieve_val se self ''third_video_format'') = self"
    and p: "packed (format_slots se self)"
  shows "packed (format_slots se (state_of (on_formats_tab_remove_clicked fm se self iter)))"
proof -
  from slots_of_stable[OF s1 s2 s3] obtain x1 x2 x3 where x:
    "OptionsEditWin_retrieve_val se self ''video_format'' = (Inr x1, self)"
    "OptionsEditWin_retrieve_val se self ''second_video_format'' = (Inr x2, self)"
    "OptionsEditWin_retrieve_val se self ''third_video_format'' = (Inr x3, self)"
    "format_slots se self = (Inr x1, Inr x2, Inr x3)" by blast
  have pk: "packed (Inr x1, Inr x2, Inr x3)" using p x(4) by simp
  show ?thesis
  proof (cases iter)
    case None
    then show ?thesis using p by (simp add: on_formats_tab_remove_clicked_def)
  next
    case (Some i)
    show ?thesis
    proof (cases "row_name (other_liststore (formats_tab self)) i")
      case (Inl e)
      then show ?thesis using p Some by (simp add: on_formats_tab_remove_clicked_def)
    next
      case (Inr name)
      show ?thesis
      proof (cases "video_option fm name")
        case (Inl e)
        then show ?thesis using p Some Inr by (simp add: on_formats_tab_remove_clicked_def)
      next
        case code: (Inr c)
        show ?thesis unfolding Some remove_slots[OF x(1-3) Inr code] by (rule packed_remove[OF pk])
      qed
    qed
  qed
qed

lemma up_keeps_packed:
  assumes s1: "snd (OptionsEditWin_retrieve_val se self ''video_format'') = self"
    and s2: "snd (OptionsEditWin_retrieve_val se self ''second_video_format'') = self"
    and s3: "snd (OptionsEditWin_retrieve_val se self ''third_video_format'') = self"
    and nz: "\<And>name. video_option fm name \<noteq> Inr ''0''"
    and p: "packed (format_slots se self)"
  shows "packed (format_slots se (state_of (on_formats_tab_up_clicked fm se self path_list)))"
proof -
  from slots_of_stable[OF s1 s2 s3] obtain x1 x2 x3 where x:
    "OptionsEditWin_retrieve_val se self ''video_format'' = (Inr x1, self)"
    "OptionsEditWin_retrieve_val se self ''second_video_format'' = (Inr x2, self)"
    "OptionsEditWin_retrieve_val se self ''third_video_format'' = (Inr x3, self)"
    "format_slots se self = (Inr x1, Inr x2, Inr x3)" by blast
  have pk: "packed (Inr x1, Inr x2, Inr x3)" using p x(4) by simp
  show ?thesis
  proof (cases path_list)
    case Nil
    then show ?thesis using p by (simp add: on_formats_tab_up_clicked_def)
  next
    case (Cons this_path others)
    show ?thesis
    proof (cases "get_iter (other_liststore (formats_tab self)) (int this_path)")
      case (Inl e)
      then show ?thesis using p Cons by (simp add: on_formats_tab_up_clicked_def)
    next
      case it: (Inr this_iter)
      show ?thesis
      proof (cases "row_name (other_liststore (formats_tab self)) this_iter")
        case (Inl e)
        then show ?thesis using p Cons it by (simp add: on_formats_tab_up_clicked_def)
      next
        case (Inr name)
        show ?thesis
        proof (cases "video_option fm name")
          case (Inl e)
          then show ?thesis using p Cons it Inr by (simp add: on_formats_tab_up_clicked_def)
        next
          case code: (Inr c)
          have c: "c \<noteq> ''0''" using nz[of name] code by auto
          show ?thesis unfolding Cons up_slots[OF x(1-3) it Inr code] by (rule packed_up[OF pk c])
        qed
      qed
    qed
  qed
qed

lemma down_keeps_packed_with_three_formats:
  assumes s1: "snd (OptionsEditWin_retrieve_val se self ''video_format'') = self"
    and s2: "snd (OptionsEditWin_retrieve_val se self ''second_video_format'') = self"
    and s3: "snd (OptionsEditWin_retrieve_val se self ''third_video_format'') = self"
    and full: "fst (OptionsEditWin_retrieve_val se self ''third_video_format'') \<noteq> Inr (PStr ''0'')"
    and p: "packed (format_slots se self)"
  shows "packed (format_slots se (state_of (on_formats_tab_down_clicked fm se self path_list)))"
proof -
  from slots_of_stable[OF s1 s2 s3] obtain x1 x2 x3 where x:
    "OptionsEditWin_retrieve_val se self ''video_format'' = (Inr x1, self)"
    "OptionsEditWin_retrieve_val se self ''second_video_format'' = (Inr x2, self)"
    "OptionsEditWin_retrieve_val se self ''third_video_format'' = (Inr x3, self)"
    "format_slots se self = (Inr x1, Inr x2, Inr x3)" by blast
  have pk: "packed (Inr x1, Inr x2, Inr x3)" using p x(4) by simp
  have x3: "x3 \<noteq> PStr ''0''" using full x(3) by simp
  show ?thesis
  proof (cases path_list)
    case Nil
    then show ?thesis using p by (simp add: on_formats_tab_down_clicked_def)
  next
    case (Cons this_path others)
    show ?thesis
    proof (cases "get_iter (other_liststore (formats_tab self)) (int this_path)")
      case (Inl e)
      then show ?thesis using p Cons by (simp add: on_formats_tab_down_clicked_def)
    next
      case it: (Inr this_iter)
      show ?thesis
      proof (cases "row_name (other_liststore (formats_tab self)) this_iter")
        case (Inl e)
        then show ?thesis using p Cons it by (simp add: on_formats_tab_down_clicked_def)
      next
        case (Inr name)
        show ?thesis
        proof (cases "video_option fm name")
          case (Inl e)
          then show ?thesis using p Cons it Inr by (simp add: on_formats_tab_down_clicked_def)
        next
          case code: (Inr c)
          show ?thesis unfolding Cons down_slots[OF x(1-3) it Inr code] by (rule packed_down[OF pk x3])
        qed
      qed
    qed
  qed
qed


text \<open>
  C9. In a window with two formats chosen, '18' and '22', the options are packed. Selecting
  the last row of the preference list and clicking 'Move down' stages \<^verbatim>\<open>'0'\<close> for the
  second option and '22' for the third, and then raises ValueError when the row is to be
  moved behind a row that does not exist: the options are then '18', '0', '22', which is
  not packed.
\<close>

theorem down_on_last_format_unpacks:
  "format_slots no_report options_win = (Inr (PStr ''18''), Inr (PStr ''22''), Inr (PStr ''0''))
   \<and> packed (format_slots no_report options_win)
   \<and> on_formats_tab_down_clicked example_formats no_report options_win [1]
       = Raised ValueError
           (options_win\<lparr>edit_dict := [(''all_formats'', PBool True),
              (''second_video_format'', PStr ''0''), (''third_video_format'', PStr ''22'')]\<rparr>)
   \<and> format_slots no_report
         (state_of (on_formats_tab_down_clicked example_formats no_report options_win [1]))
       = (Inr (PStr ''18''), Inr (PStr ''0''), Inr (PStr ''22''))
   \<and> \<not> packed (format_slots no_report
         (state_of (on_formats_tab_down_clicked example_formats no_report options_win [1])))"
  by (simp add: on_formats_tab_down_clicked_def example_formats_def no_report_def options_win_def
      get_iter_def row_name_def video_option_def then_do_def OptionsEditWin_retrieve_val_def
      dict_in_def dict_getitem_def stage_def format_slots_def packed_def Let_def)

section \<open>The preference window\<close>

lemma decimal_is_digit: "list_all decimal_char s \<Longrightarrow> list_all digit_char s"
  by (induction s) (auto simp: decimal_char_def digit_char_def Let_def)

lemma foldl_decimal_nonneg:
  "list_all decimal_char s \<Longrightarrow> 0 \<le> acc \<Longrightarrow>
   0 \<le> foldl (\<lambda>acc c. 10 * acc + (int (of_char c) - 48)) acc s"
  by (induction s arbitrary: acc) (auto simp: decimal_char_def Let_def)

lemma decimal_value_nonneg: "list_all decimal_char s \<Longrightarrow> 0 \<le> decimal_value s"
  unfolding decimal_value_def by (rule foldl_decimal_nonneg) simp_all

lemma make_calls_Nil: "make_calls app [] a = a"
  by (simp add: make_calls_def)

lemma make_calls_Cons:
  "make_calls app ((name, args) # cs) a = make_calls app cs (invoke app name args a)"
  by (simp add: make_calls_def)

lemma make_calls_append:
  "make_calls app (cs @ ds) a = make_calls app ds (make_calls app cs a)"
  by (simp add: make_calls_def)

lemmas make_calls_simps = make_calls_Nil make_calls_Cons make_calls_append

lemma limit_entry_effect:
  "app_obj (state_of (limit_entry_changed app setter s self)) =
     make_calls app (spec_calls_at_once app self (LimitEntry setter) (Entry s)) (app_obj self)
   \<and> raised (limit_entry_changed app setter s self)
       = spec_ends_with app self (LimitEntry setter) (Entry s)"
  by (auto simp: limit_entry_changed_def py_isdigit_def py_int_of_str_def call_def
      decimal_is_digit decimal_value_nonneg spec_calls_at_once_def spec_ends_with_def
      make_calls_simps raised_def max_str_digits_def)

lemma handler_effect:
  "app_obj (state_of (run_handler app h r self)) =
     make_calls app (spec_calls_at_once app self h r) (app_obj self)
   \<and> raised (run_handler app h r self) = spec_ends_with app self h r"
proof (cases h)
  case (FlagButton flag)
  then show ?thesis
    by (cases r) (auto simp: run_handler_def spec_calls_at_once_def spec_ends_with_def
      raised_def make_calls_simps flag_button_toggled_def call_def)
next
  case (Spinbutton setter)
  then show ?thesis
    by (cases r) (auto simp: run_handler_def spec_calls_at_once_def spec_ends_with_def
      raised_def make_calls_simps spinbutton_changed_def call_def)
next
  case (Radiobutton setter)
  then show ?thesis
    by (cases r) (auto simp: run_handler_def spec_calls_at_once_def spec_ends_with_def
      raised_def make_calls_simps radiobutton_toggled_def call_def)
next
  case (LimitEntry setter)
  show ?thesis
  proof (cases r)
    case (Entry s)
    then show ?thesis using LimitEntry limit_entry_effect [of app setter s self]
      by (simp add: run_handler_def)
  qed (simp_all add: LimitEntry run_handler_def spec_calls_at_once_def spec_ends_with_def
      raised_def make_calls_simps)
next
  case (ComboBox name col)
  show ?thesis
  proof (cases r)
    case (Row tree_iter model)
    then show ?thesis using ComboBox
      by (cases tree_iter)
         (auto simp: run_handler_def spec_calls_at_once_def spec_ends_with_def
           raised_def make_calls_simps combo_changed_def model_item_def call_def)
  qed (simp_all add: ComboBox run_handler_def spec_calls_at_once_def spec_ends_with_def
      raised_def make_calls_simps)
next
  case (MainWinButton widget)
  then show ?thesis
    by (cases r) (auto simp: run_handler_def spec_calls_at_once_def spec_ends_with_def
      raised_def make_calls_simps main_win_button_toggled_def call_def Let_def)
next
  case (MainWinSpinbutton widget)
  then show ?thesis
    by (cases r) (auto simp: run_handler_def spec_calls_at_once_def spec_ends_with_def
      raised_def make_calls_simps main_win_spinbutton_changed_def call_def)
next
  case ComplexButton
  then show ?thesis
    by (cases r) (auto simp: run_handler_def spec_calls_at_once_def spec_ends_with_def
      raised_def make_calls_simps on_complex_button_toggled_def call_def)
next
  case MatchButton
  show ?thesis
  proof (cases r)
    case (Match which b)
    then show ?thesis using MatchButton
      by (cases "py_float (attribute app (app_obj self) ''match_default_chars'')")
         (auto simp: run_handler_def spec_calls_at_once_def spec_ends_with_def
           raised_def make_calls_simps on_match_button_toggled_def spinbutton_set_value_def
           on_match_spinbutton_changed_def call_def Let_def spec_match_method_def)
  qed (simp_all add: MatchButton run_handler_def spec_calls_at_once_def spec_ends_with_def
      raised_def make_calls_simps)
next
  case MatchSpinbutton
  then show ?thesis
    by (cases r) (auto simp: run_handler_def spec_calls_at_once_def spec_ends_with_def
      raised_def make_calls_simps on_match_spinbutton_changed_def call_def)
next
  case ResetFfmpegButton
  then show ?thesis
    by (cases r) (auto simp: run_handler_def spec_calls_at_once_def spec_ends_with_def
      raised_def make_calls_simps on_reset_ffmpeg_button_clicked_def call_def)
next
  case SetFfmpegButton
  show ?thesis
  proof (cases r)
    case (Chosen response)
    then show ?thesis using SetFfmpegButton
      by (cases response)
         (auto simp: run_handler_def spec_calls_at_once_def spec_ends_with_def
           raised_def make_calls_simps on_set_ffmpeg_button_clicked_def call_def)
  qed (simp_all add: SetFfmpegButton run_handler_def spec_calls_at_once_def spec_ends_with_def
      raised_def make_calls_simps)
next
  case DataDirButton
  show ?thesis
  proof (cases r)
    case (ChosenFolder response isfile)
    then show ?thesis using DataDirButton
      by (cases response; cases "attribute app (app_obj self) ''db_file_name''")
         (auto simp: run_handler_def spec_calls_at_once_def spec_ends_with_def
           raised_def make_calls_simps on_data_dir_button_clicked_def call_def)
  qed (simp_all add: DataDirButton run_handler_def spec_calls_at_once_def spec_ends_with_def
      raised_def make_calls_simps)
qed


lemma callbacks_distinct: "distinct (map fst SystemPrefWin_callbacks)"
  by code_simp

lemma callback_by_name:
  "(name, h) \<in> set SystemPrefWin_callbacks \<Longrightarrow>
   SystemPrefWin_callback app name r self = run_handler app h r self"
  by (simp add: SystemPrefWin_callback_def map_of_is_SomeI[OF callbacks_distinct])

lemma ok_button_effect:
  "app_obj (GenericPrefWin_on_button_ok_clicked app self)
     = invoke app ''main_win_obj.del_child_window'' [] (app_obj self)
   \<and> destroyed (GenericPrefWin_on_button_ok_clicked app self)"
  by (simp add: GenericPrefWin_on_button_ok_clicked_def destroy_def close_def call_def)

text \<open>
  C6, in the form that holds. In the preference window each of the 73 change callbacks
  acts on the application object before it ends, and nothing is kept for later: run on what
  its widget reports, it makes exactly the calls of \<open>spec_calls_at_once\<close>, in their order,
  and it ends as \<open>spec_ends_with\<close> says. So the new value goes to its setter, or to the twin
  widget of the main window, except that nothing is called for a check button that already
  agrees with its flag, a radio button that is not active, a combo box without an active
  row, a cancelled file chooser and a limit entry whose text is not a decimal number of at
  most 4300 digits; digits that \<^verbatim>\<open>int\<close> does not take, and more than 4300 of them, end in
  ValueError with nothing called. The button for the data directory calls \<^verbatim>\<open>switch_db\<close> only
  when the chosen folder has a database file; when it has none the callback only opens
  the dialogue with the buttons yes and no. The 'OK' button applies nothing: destroying
  the window runs \<^verbatim>\<open>close\<close>, which tells the main window that the window is gone.
\<close>

theorem preference_changes_applied_at_once:
  assumes "(name, h) \<in> set SystemPrefWin_callbacks"
  shows "SystemPrefWin_callback app name r self = run_handler app h r self
   \<and> app_obj (state_of (SystemPrefWin_callback app name r self))
       = make_calls app (spec_calls_at_once app self h r) (app_obj self)
   \<and> raised (SystemPrefWin_callback app name r self) = spec_ends_with app self h r
   \<and> app_obj (GenericPrefWin_on_button_ok_clicked app self)
       = invoke app ''main_win_obj.del_child_window'' [] (app_obj self)
   \<and> destroyed (GenericPrefWin_on_button_ok_clicked app self)"
  using callback_by_name [OF assms, of app r self] handler_effect [of app h r self]
    ok_button_effect [of app self]
  by simp

lemma nines_digits:
  "py_isdigit (replicate 4301 (CHR ''9'')) \<and> list_all decimal_char (replicate 4301 (CHR ''9''))"
  by (simp add: py_isdigit_def list_all_iff digit_char_def decimal_char_def)

theorem preference_changes_applied_at_once_witness:
  "(''on_check_limit_changed'', LimitEntry ''set_operation_check_limit'')
     \<in> set SystemPrefWin_callbacks
   \<and> app_obj (state_of (SystemPrefWin_callback example_app ''on_check_limit_changed''
        (Entry ''25'') pref_win))
       = ([(''operation_check_limit'', PInt 25), (''allow_ytdl_archive_flag'', PBool False),
           (''db_file_name'', PStr ''tartube.db'')],
          [(''set_operation_check_limit'', [PInt 25])])
   \<and> raised (SystemPrefWin_callback example_app ''on_check_limit_changed''
        (Entry ''25'') pref_win) = None
   \<and> app_obj (state_of (SystemPrefWin_callback example_app ''on_check_limit_changed''
        (Entry (replicate 4301 (CHR ''9''))) pref_win)) = app_obj pref_win
   \<and> raised (SystemPrefWin_callback example_app ''on_check_limit_changed''
        (Entry (replicate 4301 (CHR ''9''))) pref_win) = Some ValueError
   \<and> snd (app_obj (GenericPrefWin_on_button_ok_clicked example_app pref_win))
       = [(''main_win_obj.del_child_window'', [])]"
proof -
  let ?h = "LimitEntry ''set_operation_check_limit''"
  have row: "(''on_check_limit_changed'', ?h) \<in> set SystemPrefWin_callbacks"
    by (simp add: SystemPrefWin_callbacks_def)
  note t = preference_changes_applied_at_once [OF row, of example_app _ pref_win]
  have calls: "make_calls example_app (spec_calls_at_once example_app pref_win ?h (Entry ''25''))
        (app_obj pref_win)
      = ([(''operation_check_limit'', PInt 25), (''allow_ytdl_archive_flag'', PBool False),
          (''db_file_name'', PStr ''tartube.db'')],
         [(''set_operation_check_limit'', [PInt 25])])"
    by (simp add: spec_calls_at_once_def decimal_char_def decimal_value_def make_calls_def
        example_app_def pref_win_def)
  have ends: "spec_ends_with example_app pref_win ?h (Entry ''25'') = None"
    by (simp add: spec_ends_with_def decimal_char_def)
  have calls': "make_calls example_app
        (spec_calls_at_once example_app pref_win ?h (Entry (replicate 4301 (CHR ''9''))))
        (app_obj pref_win) = app_obj pref_win"
    by (simp add: spec_calls_at_once_def make_calls_def)
  have ends': "spec_ends_with example_app pref_win ?h (Entry (replicate 4301 (CHR ''9'')))
      = Some ValueError"
    using nines_digits by (simp add: spec_ends_with_def)
  have del: "snd (invoke example_app ''main_win_obj.del_child_window'' [] (app_obj pref_win))
      = [(''main_win_obj.del_child_window'', [])]"
    by (simp add: example_app_def pref_win_def)
  note t1 = t [of "Entry ''25''"]
  note t2 = t [of "Entry (replicate 4301 (CHR ''9''))"]
  have a: "app_obj (state_of (SystemPrefWin_callback example_app ''on_check_limit_changed''
        (Entry ''25'') pref_win))
       = ([(''operation_check_limit'', PInt 25), (''allow_ytdl_archive_flag'', PBool False),
           (''db_file_name'', PStr ''tartube.db'')],
          [(''set_operation_check_limit'', [PInt 25])])"
    using conjunct1 [OF conjunct2 [OF t1]] calls by simp
  have b: "raised (SystemPrefWin_callback example_app ''on_check_limit_changed''
        (Entry ''25'') pref_win) = None"
    using conjunct1 [OF conjunct2 [OF conjunct2 [OF t1]]] ends by simp
  have c: "app_obj (state_of (SystemPrefWin_callback example_app ''on_check_limit_changed''
        (Entry (replicate 4301 (CHR ''9''))) pref_win)) = app_obj pref_win"
    using conjunct1 [OF conjunct2 [OF t2]] calls' by simp
  have d: "raised (SystemPrefWin_callback example_app ''on_check_limit_changed''
        (Entry (replicate 4301 (CHR ''9''))) pref_win) = Some ValueError"
    using conjunct1 [OF conjunct2 [OF conjunct2 [OF t2]]] ends' by simp
  have e: "snd (app_obj (GenericPrefWin_on_button_ok_clicked example_app pref_win))
       = [(''main_win_obj.del_child_window'', [])]"
    using conjunct1 [OF conjunct2 [OF conjunct2 [OF conjunct2 [OF t1]]]] del by simp
  from row a b c d e show ?thesis by (simp only: simp_thms)
qed

text \<open>
  The claim as first stated, that every change callback applies its new value at once,
  fails for the limit entries and for the button of the data directory: text that is not
  made of digits is ignored, and the limit of the application object stays what it was;
  and for a folder without a database file the only call is the one that opens the
  dialogue, so that the database is not switched when the callback ends.
\<close>

theorem change_not_applied_at_once:
  "SystemPrefWin_callback example_app ''on_check_limit_changed'' (Entry ''abc'') pref_win
     = Returned pref_win
   \<and> attribute example_app (app_obj pref_win) ''operation_check_limit'' = PInt 50
   \<and> snd (app_obj (state_of (SystemPrefWin_callback example_app ''on_data_dir_button_clicked''
        (ChosenFolder (Some ''/data'') False) pref_win)))
       = [(''dialogue_manager_obj.show_msg_dialogue'',
           [PStr (create_question ''/data''), PStr ''question'', PStr ''yes-no'',
            PList [PTuple [PStr ''yes'', PStr ''switch_db''],
                   PTuple [PStr ''data'', PList [PStr ''/data'']]]])]
   \<and> fst (app_obj (state_of (SystemPrefWin_callback example_app ''on_data_dir_button_clicked''
        (ChosenFolder (Some ''/data'') False) pref_win))) = fst (app_obj pref_win)"
  by (simp add: SystemPrefWin_callback_def SystemPrefWin_callbacks_def run_handler_def
      limit_entry_changed_def py_isdigit_def digit_char_def decimal_char_def
      on_data_dir_button_clicked_def call_def example_app_def pref_win_def Let_def)

end
